theory Spec2Isabelle
  imports Complex_Main
begin

section \<open>The unconditional UNet of \<^verbatim>\<open>src/diffusers/models/unet_unconditional.py\<close>\<close>

text \<open>
  A shallow embedding of the orchestrator \<^verbatim>\<open>UNetUnconditionalModel\<close> and of the small
  modules defined beside it (\<^verbatim>\<open>Combine\<close>, \<^verbatim>\<open>TimestepEmbedding\<close>, \<^verbatim>\<open>Timesteps\<close>).

  Feature tensors are values of a type variable \<open>'a\<close>: the numerical work is done by
  PyTorch and by the block classes of \<^verbatim>\<open>unet_new\<close>, \<^verbatim>\<open>resnet\<close>, \<^verbatim>\<open>attention\<close> and
  \<^verbatim>\<open>embeddings\<close>, none of which is defined in this file. They are taken as parameters
  (the record \<open>backend\<close> at call time, the record \<open>factories\<close> at construction time), so
  every statement about the data flow holds for whatever these collaborators compute.
  Every Python exception is a value of \<open>py_error\<close>; a function that can raise returns
  \<open>py_error + result\<close>, \<open>Inl\<close> being the exception.
\<close>

subsection \<open>Exceptions\<close>

datatype py_error =
    ValueError string
  | TypeError
  | IndexError
  | AttributeError
  | AssertionError
  | UnboundLocalError
  | ZeroDivisionError
  | ImportError
  | NotImplementedError
  | RuntimeError string

subsection \<open>PyTorch layers, as the constructor calls of the source describe them\<close>

record conv2d_layer =
  conv_name :: string
  conv_in_channels :: nat
  conv_out_channels :: nat
  conv_kernel_size :: nat
  conv_padding :: nat

record linear_layer =
  lin_name :: string
  in_features :: nat
  out_features :: nat

record group_norm_layer =
  gn_num_channels :: nat
  gn_num_groups :: nat

text \<open>
  The PyTorch operations the file calls (\<^verbatim>\<open>nn.Conv2d\<close>, \<^verbatim>\<open>nn.Linear\<close>, \<^verbatim>\<open>nn.GroupNorm\<close>,
  \<^verbatim>\<open>nn.SiLU\<close>, \<^verbatim>\<open>torch.cat(.., dim=1)\<close>, \<^verbatim>\<open>+\<close>, \<^verbatim>\<open>.device\<close>). A layer is applied with
  whatever weights it currently holds: weight values are not part of the model.
\<close>

record 'a torch =
  conv2d :: "conv2d_layer \<Rightarrow> 'a \<Rightarrow> py_error + 'a"
  apply_linear :: "linear_layer \<Rightarrow> 'a \<Rightarrow> py_error + 'a"
  apply_group_norm :: "group_norm_layer \<Rightarrow> 'a \<Rightarrow> py_error + 'a"
  apply_silu :: "'a \<Rightarrow> 'a"
  cat_dim1 :: "'a \<Rightarrow> 'a \<Rightarrow> py_error + 'a"
  add :: "'a \<Rightarrow> 'a \<Rightarrow> py_error + 'a"
  device_of :: "'a \<Rightarrow> string"

subsection \<open>Combine\<close>

record Combine =
  Conv_0 :: conv2d_layer
  c_method :: string

text \<open>\<^verbatim>\<open>Combine.__init__(dim1, dim2, method="cat")\<close>: builds the 1x1 convolution and stores
  the method string as it is. Nothing is checked here.\<close>

definition Combine_init :: "nat \<Rightarrow> nat \<Rightarrow> string \<Rightarrow> py_error + Combine" where
  "Combine_init dim1 dim2 meth =
     Inr \<lparr>Conv_0 = \<lparr>conv_name = ''Conv_0'', conv_in_channels = dim1, conv_out_channels = dim2,
                     conv_kernel_size = 1, conv_padding = 0\<rparr>,
          c_method = meth\<rparr>"

text \<open>\<^verbatim>\<open>Combine.forward(x, y)\<close>: the convolution runs first, then the method string is
  inspected.\<close>

definition Combine_forward :: "'a torch \<Rightarrow> Combine \<Rightarrow> 'a \<Rightarrow> 'a \<Rightarrow> py_error + 'a" where
  "Combine_forward T c x y =
     (case conv2d T (Conv_0 c) x of
        Inl e \<Rightarrow> Inl e
      | Inr h \<Rightarrow>
          if c_method c = ''cat'' then cat_dim1 T h y
          else if c_method c = ''sum'' then add T h y
          else Inl (ValueError (''Method '' @ c_method c @ '' not recognized.'')))"

subsection \<open>TimestepEmbedding (the timestep MLP)\<close>

datatype activation = SiLU

record TimestepEmbedding =
  linear_1 :: linear_layer
  act :: "activation option"
  linear_2 :: linear_layer

text \<open>\<^verbatim>\<open>TimestepEmbedding.__init__(channel, time_embed_dim, act_fn="silu")\<close>; \<^verbatim>\<open>act_fn\<close> is a
  string or \<^verbatim>\<open>None\<close>.\<close>

definition TimestepEmbedding_init :: "nat \<Rightarrow> nat \<Rightarrow> string option \<Rightarrow> TimestepEmbedding" where
  "TimestepEmbedding_init channel time_embed_dim act_fn =
     \<lparr>linear_1 = \<lparr>lin_name = ''linear_1'', in_features = channel, out_features = time_embed_dim\<rparr>,
      act = (if act_fn = Some ''silu'' then Some SiLU else None),
      linear_2 = \<lparr>lin_name = ''linear_2'', in_features = time_embed_dim,
                  out_features = time_embed_dim\<rparr>\<rparr>"

definition TimestepEmbedding_forward ::
  "'a torch \<Rightarrow> TimestepEmbedding \<Rightarrow> 'a \<Rightarrow> py_error + 'a" where
  "TimestepEmbedding_forward T te sample =
     (case apply_linear T (linear_1 te) sample of
        Inl e \<Rightarrow> Inl e
      | Inr s1 \<Rightarrow>
          let s2 = (case act te of None \<Rightarrow> s1 | Some SiLU \<Rightarrow> apply_silu T s1)
          in apply_linear T (linear_2 te) s2)"

subsection \<open>The timestep argument\<close>

text \<open>
  The timestep of \<^verbatim>\<open>forward\<close> is \<^verbatim>\<open>Union[torch.Tensor, float, int]\<close>. A timestep tensor is
  modelled concretely: shape, element type, device, and the elements in row-major order.
  A Python float is a real number here (no rounding, no infinities).
\<close>

datatype py_number = PyInt int | PyFloat real

datatype dtype = Long | OtherDtype string

record ttensor =
  t_shape :: "nat list"
  t_dtype :: dtype
  t_device :: string
  t_data :: "py_number list"

datatype timestep_arg = ScalarArg py_number | TensorArg ttensor

text \<open>The value a Python number takes in a tensor of element type \<^verbatim>\<open>torch.long\<close>: a float is
  truncated towards zero; a value outside the signed 64-bit range is refused by
  \<^verbatim>\<open>torch.tensor\<close>.\<close>

definition trunc_number :: "py_number \<Rightarrow> int" where
  "trunc_number v = (case v of PyInt i \<Rightarrow> i
                      | PyFloat x \<Rightarrow> if 0 \<le> x then \<lfloor>x\<rfloor> else \<lceil>x\<rceil>)"

definition in_int64 :: "int \<Rightarrow> bool" where
  "in_int64 i = (- (2 ^ 63) \<le> i \<and> i < 2 ^ 63)"

definition torch_tensor_long :: "py_number \<Rightarrow> string \<Rightarrow> py_error + ttensor" where
  "torch_tensor_long v dev =
     (if in_int64 (trunc_number v)
      then Inr \<lparr>t_shape = [1], t_dtype = Long, t_device = dev, t_data = [PyInt (trunc_number v)]\<rparr>
      else Inl (RuntimeError ''Overflow when unpacking long''))"

text \<open>Step 1 of \<^verbatim>\<open>forward\<close> (``time step embeddings -> make correct tensor''); \<open>dev\<close> is
  \<^verbatim>\<open>sample.device\<close>.\<close>

definition normalize_timestep :: "timestep_arg \<Rightarrow> string \<Rightarrow> py_error + ttensor" where
  "normalize_timestep timestep dev =
     (case timestep of
        ScalarArg v \<Rightarrow> torch_tensor_long v dev
      | TensorArg t \<Rightarrow>
          if length (t_shape t) = 0
          then Inr (t\<lparr>t_shape := [1], t_device := dev\<rparr>)
          else Inr t)"

subsection \<open>Sequencing of calls that can raise\<close>

definition and_then :: "py_error + 'x \<Rightarrow> ('x \<Rightarrow> py_error + 'y) \<Rightarrow> py_error + 'y" where
  "and_then r f = (case r of Inl e \<Rightarrow> Inl e | Inr v \<Rightarrow> f v)"

definition or_raise :: "py_error option \<Rightarrow> (py_error + 'y) \<Rightarrow> py_error + 'y" where
  "or_raise r k = (case r of Some e \<Rightarrow> Inl e | None \<Rightarrow> k)"

definition require :: "'x option \<Rightarrow> py_error \<Rightarrow> ('x \<Rightarrow> py_error + 'y) \<Rightarrow> py_error + 'y" where
  "require v e f = (case v of None \<Rightarrow> Inl e | Some x \<Rightarrow> f x)"

subsection \<open>The arguments of the constructor and the registered configuration\<close>

text \<open>
  The keyword arguments of \<^verbatim>\<open>UNetUnconditionalModel.__init__\<close>. An argument whose default is
  \<^verbatim>\<open>None\<close> is an option. Channel counts, sizes and block counts are natural numbers.
  The floating-point hyperparameters that are only handed on to collaborators
  (\<^verbatim>\<open>dropout\<close>, \<^verbatim>\<open>resnet_eps\<close>, \<^verbatim>\<open>fourier_scale\<close>, \<^verbatim>\<open>init_scale\<close>, \<^verbatim>\<open>downscale_freq_shift\<close>) and the
  arguments \<^verbatim>\<open>init_for_sde\<close> only stores (\<^verbatim>\<open>centered\<close>, \<^verbatim>\<open>conditional\<close>, \<^verbatim>\<open>conv_size\<close>,
  \<^verbatim>\<open>fir_kernel\<close>, \<^verbatim>\<open>scale_by_sigma\<close>, \<^verbatim>\<open>skip_rescale\<close>, \<^verbatim>\<open>continuous\<close>) are left out.
\<close>

record init_args =
  a_image_size :: "nat option"
  a_in_channels :: "nat option"
  a_out_channels :: "nat option"
  a_num_res_blocks :: "nat option"
  a_block_channels :: "nat list"
  a_down_blocks :: "string list"
  a_downsample_padding :: nat
  a_up_blocks :: "string list"
  a_resnet_act_fn :: string
  a_conv_resample :: bool
  a_num_head_channels :: int
  a_flip_sin_to_cos :: bool
  a_time_embedding_type :: string
  a_time_embedding_act_fn :: "string option"
  a_attention_resolutions :: "nat list"
  a_ldm :: bool
  a_out_ch :: "nat option"
  a_resolution :: "nat option"
  a_attn_resolutions :: "nat list option"
  a_resamp_with_conv :: "bool option"
  a_ch_mult :: "nat list option"
  a_ch :: "nat option"
  a_ddpm :: bool
  a_sde :: bool
  a_nf :: "nat option"
  a_fir :: "bool option"
  a_progressive :: "string option"
  a_progressive_combine :: "string option"
  a_num_channels :: "nat option"
  a_progressive_input :: string

text \<open>The defaults of the signature.\<close>

definition default_args :: init_args where
  "default_args =
     \<lparr>a_image_size = None, a_in_channels = None, a_out_channels = None, a_num_res_blocks = None,
      a_block_channels = [224, 448, 672, 896],
      a_down_blocks = [''UNetResDownBlock2D'', ''UNetResAttnDownBlock2D'',
                       ''UNetResAttnDownBlock2D'', ''UNetResAttnDownBlock2D''],
      a_downsample_padding = 1,
      a_up_blocks = [''UNetResAttnUpBlock2D'', ''UNetResAttnUpBlock2D'',
                     ''UNetResAttnUpBlock2D'', ''UNetResUpBlock2D''],
      a_resnet_act_fn = ''silu'', a_conv_resample = True, a_num_head_channels = 32,
      a_flip_sin_to_cos = True, a_time_embedding_type = ''positional'',
      a_time_embedding_act_fn = Some ''silu'', a_attention_resolutions = [8, 4, 2],
      a_ldm = False, a_out_ch = None, a_resolution = None, a_attn_resolutions = None,
      a_resamp_with_conv = None, a_ch_mult = None, a_ch = None, a_ddpm = False,
      a_sde = True, a_nf = None, a_fir = None, a_progressive = None,
      a_progressive_combine = None, a_num_channels = None,
      a_progressive_input = ''input_skip''\<rparr>"

text \<open>\<^verbatim>\<open>self.config\<close>: what \<^verbatim>\<open>register_to_config\<close> stores (the arguments as the caller passed
  them), of which the constructor later overwrites two fields.\<close>

record config =
  cfg_image_size :: "nat option"
  cfg_in_channels :: "nat option"
  cfg_block_channels :: "nat list"
  cfg_downsample_padding :: nat
  cfg_out_channels :: "nat option"
  cfg_num_res_blocks :: "nat option"
  cfg_down_blocks :: "string list"
  cfg_up_blocks :: "string list"
  cfg_conv_resample :: bool
  cfg_num_head_channels :: int
  cfg_flip_sin_to_cos :: bool
  cfg_time_embedding_type :: string
  cfg_time_embedding_act_fn :: "string option"
  cfg_attention_resolutions :: "nat list"
  cfg_attn_resolutions :: "nat list option"
  cfg_ldm :: bool
  cfg_ddpm :: bool
  cfg_sde :: bool

definition register_to_config :: "init_args \<Rightarrow> config" where
  "register_to_config a =
     \<lparr>cfg_image_size = a_image_size a, cfg_in_channels = a_in_channels a,
      cfg_block_channels = a_block_channels a, cfg_downsample_padding = a_downsample_padding a,
      cfg_out_channels = a_out_channels a, cfg_num_res_blocks = a_num_res_blocks a,
      cfg_down_blocks = a_down_blocks a, cfg_up_blocks = a_up_blocks a,
      cfg_conv_resample = a_conv_resample a, cfg_num_head_channels = a_num_head_channels a,
      cfg_flip_sin_to_cos = a_flip_sin_to_cos a, cfg_time_embedding_type = a_time_embedding_type a,
      cfg_time_embedding_act_fn = a_time_embedding_act_fn a,
      cfg_attention_resolutions = a_attention_resolutions a,
      cfg_attn_resolutions = a_attn_resolutions a,
      cfg_ldm = a_ldm a, cfg_ddpm = a_ddpm a, cfg_sde = a_sde a\<rparr>"

subsection \<open>The local variables the \<^verbatim>\<open>if sde:\<close> block of the constructor rebinds\<close>

record init_locals =
  l_block_channels :: "nat list"
  l_in_channels :: "nat option"
  l_out_channels :: "nat option"
  l_conv_resample :: "bool option"
  l_time_embedding_type :: string
  l_down_blocks :: "string list"
  l_config :: config

definition sde_down_blocks :: "string list" where
  "sde_down_blocks = [''UNetResSkipDownBlock2D'', ''UNetResAttnSkipDownBlock2D'',
                      ''UNetResSkipDownBlock2D'', ''UNetResSkipDownBlock2D'']"

text \<open>\<^verbatim>\<open>[nf * x for x in ch_mult]\<close>: iterating \<^verbatim>\<open>None\<close> raises, and so does \<^verbatim>\<open>None * x\<close> as soon
  as there is an \<^verbatim>\<open>x\<close>.\<close>

definition scale_channels :: "nat option \<Rightarrow> nat list option \<Rightarrow> py_error + nat list" where
  "scale_channels f mult =
     (case mult of
        None \<Rightarrow> Inl TypeError
      | Some xs \<Rightarrow>
          (case f of
             None \<Rightarrow> if xs = [] then Inr [] else Inl TypeError
           | Some n \<Rightarrow> Inr (map (\<lambda>x. n * x) xs)))"

text \<open>Lines 157-192: registration of the arguments, then the \<^verbatim>\<open>if sde:\<close> block.\<close>

definition init_overrides :: "init_args \<Rightarrow> py_error + init_locals" where
  "init_overrides a =
     (let cfg = register_to_config a in
      if a_sde a then
        and_then (scale_channels (a_nf a) (a_ch_mult a)) (\<lambda>bc.
          Inr \<lparr>l_block_channels = bc,
               l_in_channels = a_num_channels a,
               l_out_channels = a_num_channels a,
               l_conv_resample = a_resamp_with_conv a,
               l_time_embedding_type = ''fourier'',
               l_down_blocks = sde_down_blocks,
               l_config = cfg\<lparr>cfg_time_embedding_type := ''fourier'',
                               cfg_time_embedding_act_fn := None\<rparr>\<rparr>)
      else
        Inr \<lparr>l_block_channels = a_block_channels a,
             l_in_channels = a_in_channels a,
             l_out_channels = a_out_channels a,
             l_conv_resample = Some (a_conv_resample a),
             l_time_embedding_type = a_time_embedding_type a,
             l_down_blocks = a_down_blocks a,
             l_config = cfg\<rparr>)"

subsection \<open>The block graph\<close>

text \<open>
  A block is represented by the keyword arguments the constructor passes to its factory
  (\<^verbatim>\<open>resnet_eps\<close>, a float, left out): the classes themselves live in \<^verbatim>\<open>unet_new\<close>.
\<close>

record down_block =
  d_block_type :: string
  d_num_layers :: nat
  d_in_channels :: nat
  d_out_channels :: nat
  d_temb_channels :: nat
  add_downsample :: bool
  d_resnet_act_fn :: string
  d_attn_num_head_channels :: int
  d_downsample_padding :: nat

record up_block =
  u_block_type :: string
  u_num_layers :: nat
  u_in_channels :: nat
  u_out_channels :: nat
  u_prev_output_channel :: nat
  u_temb_channels :: nat
  add_upsample :: bool
  u_resnet_act_fn :: string
  u_attn_num_head_channels :: int

record mid_block =
  m_in_channels :: nat
  m_temb_channels :: nat

datatype time_steps_module =
    GaussianFourierProjection "nat option"
  | Timesteps nat bool

text \<open>What the attribute \<^verbatim>\<open>self.mid\<close> can hold: \<^verbatim>\<open>None\<close>, a \<^verbatim>\<open>UNetMidBlock2D\<close>, or the bare
  \<^verbatim>\<open>nn.Module()\<close> that \<^verbatim>\<open>init_for_ddpm\<close> puts there.\<close>

datatype mid_attr = MidNone | MidBlock mid_block | MidPlainModule

text \<open>
  The instance after construction. \<open>legacy\<close> lists the names of the attributes the
  \<^verbatim>\<open>init_for_*\<close> methods add for the weight conversion, \<open>combiners\<close> the \<^verbatim>\<open>Combine\<close> modules
  among them.
\<close>

record model =
  config :: config
  m_image_size :: "nat option"
  conv_in :: conv2d_layer
  time_steps :: time_steps_module
  time_embedding :: TimestepEmbedding
  downsample_blocks :: "down_block list"
  mid :: mid_attr
  mid_new_2 :: "mid_block option"
  upsample_blocks :: "up_block list"
  conv_norm_out :: group_norm_layer
  conv_out :: conv2d_layer
  is_overwritten :: bool
  legacy :: "string list"
  combiners :: "Combine list"

text \<open>
  The construction-time collaborators: each says whether the constructor call raises
  (\<open>Some e\<close>) or returns (\<open>None\<close>). \<open>legacy_layers\<close> stands for the constructor calls of
  \<^verbatim>\<open>ResnetBlock2D\<close>, \<^verbatim>\<open>AttentionBlock\<close>, \<^verbatim>\<open>Downsample2D\<close>, \<^verbatim>\<open>Upsample2D\<close> and their FIR variants
  inside \<^verbatim>\<open>init_for_ldm\<close>, \<^verbatim>\<open>init_for_ddpm\<close> and \<^verbatim>\<open>init_for_sde\<close> (named by the mode).
\<close>

record factories =
  get_down_block :: "down_block \<Rightarrow> py_error option"
  get_up_block :: "up_block \<Rightarrow> py_error option"
  UNetMidBlock2D :: "mid_block \<Rightarrow> py_error option"
  new_GaussianFourierProjection :: "nat option \<Rightarrow> py_error option"
  legacy_layers :: "string \<Rightarrow> py_error option"

text \<open>\<^verbatim>\<open>nn.Conv2d(in, out, kernel_size, padding=..)\<close>: a channel count of \<^verbatim>\<open>None\<close> raises.\<close>

definition new_Conv2d ::
  "string \<Rightarrow> nat option \<Rightarrow> nat option \<Rightarrow> nat \<Rightarrow> nat \<Rightarrow> py_error + conv2d_layer" where
  "new_Conv2d name cin cout k p =
     require cin TypeError (\<lambda>i. require cout TypeError (\<lambda>out.
       Inr \<lparr>conv_name = name, conv_in_channels = i, conv_out_channels = out,
            conv_kernel_size = k, conv_padding = p\<rparr>))"

text \<open>\<^verbatim>\<open>nn.GroupNorm(num_channels=.., num_groups=..)\<close> refuses a channel count that the number
  of groups does not divide.\<close>

definition new_GroupNorm :: "nat \<Rightarrow> nat \<Rightarrow> py_error + group_norm_layer" where
  "new_GroupNorm channels groups =
     (if channels mod groups \<noteq> 0
      then Inl (ValueError ''num_channels must be divisible by num_groups'')
      else Inr \<lparr>gn_num_channels = channels, gn_num_groups = groups\<rparr>)"

text \<open>The loop ``down'' of the constructor (lines 219-237), from index \<open>i\<close> on.\<close>

fun build_down_blocks ::
  "factories \<Rightarrow> init_args \<Rightarrow> nat list \<Rightarrow> nat \<Rightarrow> nat \<Rightarrow> nat \<Rightarrow> string list \<Rightarrow>
   py_error + down_block list" where
  "build_down_blocks F a bc time_embed_dim i output_channel [] = Inr []"
| "build_down_blocks F a bc time_embed_dim i output_channel (ty # rest) =
     (let input_channel = output_channel in
      if \<not> i < length bc then Inl IndexError
      else
        let output_channel = bc ! i;
            is_final_block = (i = length bc - 1)
        in require (a_num_res_blocks a) TypeError (\<lambda>n.
             let blk = \<lparr>d_block_type = ty, d_num_layers = n,
                        d_in_channels = input_channel, d_out_channels = output_channel,
                        d_temb_channels = time_embed_dim,
                        add_downsample = (\<not> is_final_block),
                        d_resnet_act_fn = a_resnet_act_fn a,
                        d_attn_num_head_channels = a_num_head_channels a,
                        d_downsample_padding = a_downsample_padding a\<rparr>
             in or_raise (get_down_block F blk)
                  (and_then (build_down_blocks F a bc time_embed_dim (i + 1) output_channel rest)
                     (\<lambda>blks. Inr (blk # blks)))))"

text \<open>The loop ``up'' of the constructor (lines 262-284), from index \<open>i\<close> on; \<open>rbc\<close> is
  \<^verbatim>\<open>reversed_block_channels\<close>.\<close>

fun build_up_blocks ::
  "factories \<Rightarrow> init_args \<Rightarrow> nat list \<Rightarrow> nat \<Rightarrow> nat \<Rightarrow> nat \<Rightarrow> string list \<Rightarrow>
   py_error + up_block list" where
  "build_up_blocks F a rbc time_embed_dim i output_channel [] = Inr []"
| "build_up_blocks F a rbc time_embed_dim i output_channel (ty # rest) =
     (let prev_output_channel = output_channel in
      if \<not> i < length rbc then Inl IndexError
      else
        let output_channel = rbc ! i;
            input_channel = rbc ! (min (i + 1) (length rbc - 1));
            is_final_block = (i = length rbc - 1)
        in require (a_num_res_blocks a) TypeError (\<lambda>n.
             let blk = \<lparr>u_block_type = ty, u_num_layers = n + 1,
                        u_in_channels = input_channel, u_out_channels = output_channel,
                        u_prev_output_channel = prev_output_channel,
                        u_temb_channels = time_embed_dim,
                        add_upsample = (\<not> is_final_block),
                        u_resnet_act_fn = a_resnet_act_fn a,
                        u_attn_num_head_channels = a_num_head_channels a\<rparr>
             in or_raise (get_up_block F blk)
                  (and_then (build_up_blocks F a rbc time_embed_dim (i + 1) output_channel rest)
                     (\<lambda>blks. Inr (blk # blks)))))"

text \<open>Lines 204-212: the embedding module and the width of its output. With a kind that is
  neither of the two strings no branch runs, and the read of \<^verbatim>\<open>timestep_input_dim\<close> on
  line 212 finds the name unbound. \<open>c0\<close> is \<^verbatim>\<open>block_channels[0]\<close>, read before on line 198.\<close>

definition build_time_steps ::
  "factories \<Rightarrow> init_args \<Rightarrow> init_locals \<Rightarrow> nat \<Rightarrow> py_error + time_steps_module \<times> nat" where
  "build_time_steps F a lc c0 =
     (if cfg_time_embedding_type (l_config lc) = ''fourier'' then
        or_raise (new_GaussianFourierProjection F (a_nf a))
          (Inr (GaussianFourierProjection (a_nf a), 2 * c0))
      else if cfg_time_embedding_type (l_config lc) = ''positional'' then
        (if cfg_block_channels (l_config lc) = [] then Inl IndexError
         else Inr (Timesteps (cfg_block_channels (l_config lc) ! 0) (a_flip_sin_to_cos a), c0))
      else Inl UnboundLocalError)"

subsection \<open>The weight-conversion initialisers\<close>

text \<open>
  \<^verbatim>\<open>init_for_ldm\<close>, \<^verbatim>\<open>init_for_ddpm\<close> and \<^verbatim>\<open>init_for_sde\<close> build a second, historical network
  whose weights \<^verbatim>\<open>set_weights\<close> copies. They are modelled by what the rest of the class
  observes: the exceptions their own statements raise, the attributes of the instance
  they overwrite (\<^verbatim>\<open>conv_in\<close>, \<^verbatim>\<open>conv_out\<close>, \<^verbatim>\<open>mid\<close>), the names of the submodules they add, and
  the \<^verbatim>\<open>Combine\<close> modules they construct. The constructor calls of the collaborator
  classes are the parameter \<open>legacy_layers\<close>, consulted after the checks of the method
  itself.
\<close>

definition init_for_ldm ::
  "factories \<Rightarrow> nat option \<Rightarrow> int \<Rightarrow> py_error + string list" where
  "init_for_ldm F num_res_blocks num_head_channels =
     require num_res_blocks TypeError (\<lambda>n.
       if num_head_channels = 0 then Inl ZeroDivisionError
       else or_raise (legacy_layers F ''ldm'')
              (Inr [''time_embed'', ''input_blocks'', ''middle_block'', ''output_blocks'',
                    ''out'']))"

definition init_for_ddpm ::
  "factories \<Rightarrow> nat list \<Rightarrow> nat \<Rightarrow> nat option \<Rightarrow> nat option \<Rightarrow> nat option \<Rightarrow>
   nat list option \<Rightarrow> nat option \<Rightarrow> py_error + conv2d_layer \<times> conv2d_layer \<times> string list" where
  "init_for_ddpm F ch_mult ch num_res_blocks resolution in_channels attn_resolutions out_ch =
     and_then (new_Conv2d ''conv_in'' in_channels (Some ch) 3 1) (\<lambda>cin.
       if ch_mult = [] then Inl UnboundLocalError
       else require num_res_blocks TypeError (\<lambda>n.
         require attn_resolutions TypeError (\<lambda>ar.
           if resolution = None \<and> 2 \<le> length ch_mult then Inl TypeError
           else or_raise (legacy_layers F ''ddpm'')
             (and_then (new_Conv2d ''conv_out'' (Some (ch * ch_mult ! 0)) out_ch 3 1) (\<lambda>cout.
                Inr (cin, cout, [''temb'', ''down'', ''mid_new'', ''up'', ''norm_out'']))))))"

text \<open>The down loop of \<^verbatim>\<open>init_for_sde\<close> (lines 912-960), for the levels still to come: the
  value of \<^verbatim>\<open>in_ch\<close> after it and the \<^verbatim>\<open>Combine\<close> modules it appends. \<open>n\<close> is
  \<^verbatim>\<open>num_res_blocks\<close>, positive here.\<close>

fun sde_down_loop ::
  "nat \<Rightarrow> nat \<Rightarrow> string \<Rightarrow> string \<Rightarrow> nat \<Rightarrow> nat \<Rightarrow> nat list \<Rightarrow> py_error + nat \<times> Combine list" where
  "sde_down_loop nf n progressive_input combine_method input_pyramid_ch in_ch [] = Inr (in_ch, [])"
| "sde_down_loop nf n progressive_input combine_method input_pyramid_ch in_ch (mult # rest) =
     (let in_ch = (if 0 < n then nf * mult else in_ch) in
      if rest = [] then Inr (in_ch, [])
      else if progressive_input = ''input_skip'' then
        and_then (Combine_init input_pyramid_ch in_ch combine_method) (\<lambda>c.
          let in_ch = (if combine_method = ''cat'' then in_ch * 2 else in_ch) in
          and_then (sde_down_loop nf n progressive_input combine_method input_pyramid_ch in_ch rest)
            (\<lambda>(r, cs). Inr (r, c # cs)))
      else if progressive_input = ''residual'' then
        sde_down_loop nf n progressive_input combine_method in_ch in_ch rest
      else sde_down_loop nf n progressive_input combine_method input_pyramid_ch in_ch rest)"

text \<open>\<^verbatim>\<open>str.lower()\<close> on ASCII text.\<close>

definition str_lower :: "string \<Rightarrow> string" where
  "str_lower s = map (\<lambda>c. let k = (of_char c :: nat)
                           in if 65 \<le> k \<and> k \<le> 90 then char_of (k + 32) else c) s"

definition init_for_sde ::
  "factories \<Rightarrow> nat option \<Rightarrow> nat \<Rightarrow> nat list option \<Rightarrow> nat list \<Rightarrow> string \<Rightarrow> nat \<Rightarrow> nat \<Rightarrow>
   string option \<Rightarrow> string option \<Rightarrow> string \<Rightarrow>
   py_error + mid_block \<times> string list \<times> Combine list" where
  "init_for_sde F image_size num_channels attn_resolutions ch_mult embedding_type nf
       num_res_blocks progressive progressive_combine progressive_input =
     (if image_size = None \<and> ch_mult \<noteq> [] then Inl TypeError
      else if progressive \<notin> {Some ''none'', Some ''output_skip'', Some ''residual''}
        then Inl AssertionError
      else if progressive_input \<notin> {''none'', ''input_skip'', ''residual''}
        then Inl AssertionError
      else if embedding_type \<notin> {''fourier'', ''positional''} then Inl AssertionError
      else require progressive_combine AttributeError (\<lambda>pc.
        let combine_method = str_lower pc in
        and_then
          (if embedding_type = ''fourier''
           then or_raise (new_GaussianFourierProjection F (Some nf)) (Inr (2 * nf))
           else if embedding_type = ''positional'' then Inr nf
           else Inl (ValueError (''embedding type '' @ embedding_type @ '' unknown.'')))
          (\<lambda>embed_dim.
             if num_res_blocks = 0 \<and> ch_mult \<noteq> [] then Inl UnboundLocalError
             else if attn_resolutions = None \<and> ch_mult \<noteq> [] then Inl TypeError
             else
               and_then (sde_down_loop nf num_res_blocks progressive_input combine_method
                           num_channels nf ch_mult) (\<lambda>(in_ch, cs).
                 let mb = \<lparr>m_in_channels = in_ch, m_temb_channels = 4 * nf\<rparr> in
                 or_raise (UNetMidBlock2D F mb)
                   (or_raise (legacy_layers F ''sde'')
                      (Inr (mb,
                            [''act''] @
                            (if progressive = Some ''output_skip'' then [''pyramid_upsample'']
                             else []) @
                            (if progressive_input = ''input_skip'' then [''pyramid_downsample'']
                             else []) @
                            [''all_modules''],
                            cs)))))))"

subsection \<open>The constructor\<close>

text \<open>Lines 297-367: the flag \<^verbatim>\<open>is_overwritten\<close> is already \<^verbatim>\<open>False\<close> in \<open>m\<close>; at most one of the
  three initialisers runs, \<^verbatim>\<open>ldm\<close> before \<^verbatim>\<open>ddpm\<close> before \<^verbatim>\<open>sde\<close>.\<close>

definition init_legacy :: "factories \<Rightarrow> init_args \<Rightarrow> init_locals \<Rightarrow> model \<Rightarrow> py_error + model" where
  "init_legacy F a lc m =
     (if a_ldm a then
        (if l_block_channels lc ! 0 = 0 then Inl ZeroDivisionError
         else and_then (init_for_ldm F (a_num_res_blocks a) (a_num_head_channels a))
                (\<lambda>names. Inr (m\<lparr>legacy := names\<rparr>)))
      else if a_ddpm a then
        and_then (scale_channels (a_ch a) (a_ch_mult a)) (\<lambda>bc.
          if bc = [] then Inl IndexError
          else
            let ch = bc ! 0 in
            if ch = 0 then Inl ZeroDivisionError
            else
              let ch_mult = map (\<lambda>b. b div ch) bc in
              and_then (init_for_ddpm F ch_mult ch (a_num_res_blocks a) (a_resolution a)
                          (l_in_channels lc) (a_attn_resolutions a) (a_out_ch a))
                (\<lambda>(cin, cout, names).
                   Inr (m\<lparr>conv_in := cin, conv_out := cout, mid := MidPlainModule,
                          legacy := names\<rparr>)))
      else if a_sde a then
        require (a_num_channels a) TypeError (\<lambda>num_channels.
        require (a_ch_mult a) TypeError (\<lambda>ch_mult.
        require (a_nf a) TypeError (\<lambda>nf.
        require (a_num_res_blocks a) TypeError (\<lambda>n.
          and_then (init_for_sde F (a_image_size a) num_channels (a_attn_resolutions a) ch_mult
                      (l_time_embedding_type lc) nf n (a_progressive a)
                      (a_progressive_combine a) (a_progressive_input a))
            (\<lambda>(mb, names, cs).
               Inr (m\<lparr>mid := MidBlock mb, legacy := names, combiners := cs\<rparr>))))))
      else Inr m)"

text \<open>\<^verbatim>\<open>UNetUnconditionalModel.__init__\<close>.\<close>

definition init :: "factories \<Rightarrow> init_args \<Rightarrow> py_error + model" where
  "init F a =
     and_then (init_overrides a) (\<lambda>lc.
       let bc = l_block_channels lc; cfg = l_config lc in
       if bc = [] then Inl IndexError
       else
         let c0 = bc ! 0; time_embed_dim = c0 * 4 in
         and_then (new_Conv2d ''conv_in'' (l_in_channels lc) (Some c0) 3 1) (\<lambda>cin.
         and_then (build_time_steps F a lc c0) (\<lambda>(ts, timestep_input_dim).
           let te = TimestepEmbedding_init timestep_input_dim time_embed_dim
                      (cfg_time_embedding_act_fn cfg)
           in
           and_then (build_down_blocks F a bc time_embed_dim 0 c0 (l_down_blocks lc)) (\<lambda>downs.
             let mb = \<lparr>m_in_channels = last bc, m_temb_channels = time_embed_dim\<rparr> in
             or_raise (UNetMidBlock2D F mb)
               (and_then (build_up_blocks F a (rev bc) time_embed_dim 0 (rev bc ! 0)
                            (a_up_blocks a)) (\<lambda>ups.
                and_then (new_GroupNorm c0 32) (\<lambda>norm.
                and_then (new_Conv2d ''conv_out'' (Some c0) (l_out_channels lc) 3 1) (\<lambda>cout.
                  init_legacy F a lc
                    \<lparr>config = cfg, m_image_size = a_image_size a, conv_in = cin,
                     time_steps = ts, time_embedding = te, downsample_blocks = downs,
                     mid = (if cfg_ddpm cfg then MidNone else MidBlock mb),
                     mid_new_2 = (if cfg_ddpm cfg then Some mb else None),
                     upsample_blocks = ups, conv_norm_out = norm, conv_out = cout,
                     is_overwritten = False, legacy = [], combiners = []\<rparr>))))))))"

subsection \<open>The forward pass\<close>

text \<open>
  The call-time collaborators: PyTorch, the forward methods of the embedding and block
  classes, the two attribute tests \<^verbatim>\<open>forward\<close> makes on a block, the weight copies of
  \<^verbatim>\<open>set_weights\<close> that go through methods of collaborator classes, and whether the module
  \<^verbatim>\<open>ipdb\<close> can be imported. A down block returns a pair or, for the skip variants, a
  triple: the third component is \<open>None\<close> for a pair.
\<close>

record 'a backend =
  torch_ops :: "'a torch"
  time_steps_forward :: "time_steps_module \<Rightarrow> ttensor \<Rightarrow> py_error + 'a"
  has_skip_path :: "down_block \<Rightarrow> py_error + bool"
  down_block_forward ::
    "down_block \<Rightarrow> 'a \<Rightarrow> 'a \<Rightarrow> 'a option \<Rightarrow> py_error + 'a \<times> 'a list \<times> 'a option"
  mid_block_forward :: "mid_block \<Rightarrow> 'a \<Rightarrow> 'a \<Rightarrow> py_error + 'a"
  up_block_forward :: "up_block \<Rightarrow> 'a \<Rightarrow> 'a list \<Rightarrow> 'a \<Rightarrow> py_error + 'a"
  len_resnets :: "up_block \<Rightarrow> nat"
  copy_ldm_weights :: "model \<Rightarrow> py_error option"
  copy_ddpm_weights :: "model \<Rightarrow> py_error option"
  ipdb_installed :: bool

text \<open>\<^verbatim>\<open>del self.<name>\<close> for each name in turn; a missing attribute raises and leaves the
  earlier deletions done.\<close>

fun del_attrs :: "string list \<Rightarrow> model \<Rightarrow> model \<times> py_error option" where
  "del_attrs [] m = (m, None)"
| "del_attrs (n # ns) m =
     (if n \<in> set (legacy m) then del_attrs ns (m\<lparr>legacy := removeAll n (legacy m)\<rparr>)
      else (m, Some AttributeError))"

definition remove_ldm :: "model \<Rightarrow> model \<times> py_error option" where
  "remove_ldm m =
     del_attrs [''time_embed'', ''input_blocks'', ''middle_block'', ''output_blocks'', ''out''] m"

definition remove_ddpm :: "model \<Rightarrow> model \<times> py_error option" where
  "remove_ddpm m = del_attrs [''temb'', ''down'', ''mid_new'', ''up'', ''norm_out''] m"

text \<open>How a call ends when it does not return: with an exception, or stopped in the
  interactive debugger.\<close>

datatype halt = Raise py_error | Debugger

text \<open>
  \<^verbatim>\<open>set_weights\<close>. The sde branch copies the weights of \<^verbatim>\<open>all_modules[0..3]\<close> (a weight-only
  effect once \<^verbatim>\<open>all_modules\<close> exists), then runs \<^verbatim>\<open>import ipdb; ipdb.set_trace()\<close>.
\<close>

definition set_weights :: "'a backend \<Rightarrow> model \<Rightarrow> model \<times> halt option" where
  "set_weights B m =
     (let m = m\<lparr>is_overwritten := True\<rparr> in
      if cfg_ldm (config m) then
        (case copy_ldm_weights B m of
           Some e \<Rightarrow> (m, Some (Raise e))
         | None \<Rightarrow> (case remove_ldm m of (m', r) \<Rightarrow> (m', map_option Raise r)))
      else if cfg_ddpm (config m) then
        (case copy_ddpm_weights B m of
           Some e \<Rightarrow> (m, Some (Raise e))
         | None \<Rightarrow> (case remove_ddpm m of (m', r) \<Rightarrow> (m', map_option Raise r)))
      else if cfg_sde (config m) then
        (if ''all_modules'' \<notin> set (legacy m) then (m, Some (Raise AttributeError))
         else if ipdb_installed B then (m, Some Debugger)
         else (m, Some (Raise ImportError)))
      else (m, None))"

text \<open>The loop ``3. down blocks''. Arguments: the blocks still to run, \<^verbatim>\<open>sample\<close>, \<^verbatim>\<open>emb\<close>,
  \<^verbatim>\<open>skip_sample\<close>, and the tuple \<^verbatim>\<open>down_block_res_samples\<close>.\<close>

fun down_pass ::
  "'a backend \<Rightarrow> down_block list \<Rightarrow> 'a \<Rightarrow> 'a \<Rightarrow> 'a \<Rightarrow> 'a list \<Rightarrow> py_error + 'a \<times> 'a list" where
  "down_pass B [] sample emb skip_sample res = Inr (sample, res)"
| "down_pass B (blk # blks) sample emb skip_sample res =
     and_then (has_skip_path B blk) (\<lambda>skip.
       if skip then
         and_then (down_block_forward B blk sample emb (Some skip_sample)) (\<lambda>(s, rs, sk).
           case sk of
             None \<Rightarrow> Inl (ValueError ''not enough values to unpack (expected 3, got 2)'')
           | Some skip_sample' \<Rightarrow> down_pass B blks s emb skip_sample' (res @ rs))
       else
         and_then (down_block_forward B blk sample emb None) (\<lambda>(s, rs, sk).
           case sk of
             Some _ \<Rightarrow> Inl (ValueError ''too many values to unpack (expected 2)'')
           | None \<Rightarrow> down_pass B blks s emb skip_sample (res @ rs)))"

text \<open>The two slices ``pop from tuple'': \<^verbatim>\<open>t[-n:]\<close> and \<^verbatim>\<open>t[:-n]\<close>. Python clamps a slice
  bound to the tuple, and \<^verbatim>\<open>-0\<close> is \<^verbatim>\<open>0\<close>.\<close>

definition pop_res_samples :: "nat \<Rightarrow> 'a list \<Rightarrow> 'a list \<times> 'a list" where
  "pop_res_samples n t =
     (if n = 0 then (t, [])
      else (drop (length t - n) t, take (length t - n) t))"

text \<open>The loop ``5. up blocks''; the second component of the result is what is left of
  \<^verbatim>\<open>down_block_res_samples\<close>.\<close>

fun up_pass ::
  "'a backend \<Rightarrow> up_block list \<Rightarrow> 'a \<Rightarrow> 'a list \<Rightarrow> 'a \<Rightarrow> py_error + 'a \<times> 'a list" where
  "up_pass B [] sample res emb = Inr (sample, res)"
| "up_pass B (blk # blks) sample res emb =
     (case pop_res_samples (len_resnets B blk) res of
        (res_samples, res') \<Rightarrow>
          and_then (up_block_forward B blk sample res_samples emb)
            (\<lambda>s. up_pass B blks s res' emb))"

text \<open>Steps 1 of \<^verbatim>\<open>forward\<close>: the conditioning vector \<^verbatim>\<open>emb\<close>.\<close>

definition conditioning :: "'a backend \<Rightarrow> model \<Rightarrow> 'a \<Rightarrow> timestep_arg \<Rightarrow> py_error + 'a" where
  "conditioning B m sample timestep =
     and_then (normalize_timestep timestep (device_of (torch_ops B) sample)) (\<lambda>timesteps.
     and_then (time_steps_forward B (time_steps m) timesteps) (\<lambda>t_emb.
       TimestepEmbedding_forward (torch_ops B) (time_embedding m) t_emb))"

text \<open>Step 4: \<^verbatim>\<open>self.mid_new_2\<close> when \<^verbatim>\<open>config.ddpm\<close>, \<^verbatim>\<open>self.mid\<close> otherwise.\<close>

definition mid_stage :: "'a backend \<Rightarrow> model \<Rightarrow> 'a \<Rightarrow> 'a \<Rightarrow> py_error + 'a" where
  "mid_stage B m sample emb =
     (if cfg_ddpm (config m) then
        (case mid_new_2 m of
           None \<Rightarrow> Inl AttributeError
         | Some mb \<Rightarrow> mid_block_forward B mb sample emb)
      else
        (case mid m of
           MidNone \<Rightarrow> Inl TypeError
         | MidPlainModule \<Rightarrow> Inl NotImplementedError
         | MidBlock mb \<Rightarrow> mid_block_forward B mb sample emb))"

text \<open>What a call can hand back: a tensor, or a dictionary from strings to tensors.\<close>

datatype 'a py_value = TensorValue 'a | DictValue "(string \<times> 'a) list"

text \<open>
  Lines 378-427 of \<^verbatim>\<open>forward\<close>, everything after the call of \<^verbatim>\<open>set_weights\<close>. The result is
  the returned object together with the final value of the local variable
  \<^verbatim>\<open>down_block_res_samples\<close>. The \<^verbatim>\<open>print\<close> on line 392 is not modelled.
\<close>

definition forward_body ::
  "'a backend \<Rightarrow> model \<Rightarrow> 'a \<Rightarrow> timestep_arg \<Rightarrow> py_error + 'a py_value \<times> 'a list" where
  "forward_body B m sample timestep =
     and_then (conditioning B m sample timestep) (\<lambda>emb.
       let skip_sample = sample in
       and_then (conv2d (torch_ops B) (conv_in m) sample) (\<lambda>sample.
       and_then (down_pass B (downsample_blocks m) sample emb skip_sample [sample])
         (\<lambda>(sample, down_block_res_samples).
       and_then (mid_stage B m sample emb) (\<lambda>sample.
       and_then (up_pass B (upsample_blocks m) sample down_block_res_samples emb)
         (\<lambda>(sample, down_block_res_samples).
       and_then (apply_group_norm (torch_ops B) (conv_norm_out m) sample) (\<lambda>sample.
         let sample = apply_silu (torch_ops B) sample in
         and_then (conv2d (torch_ops B) (conv_out m) sample) (\<lambda>sample.
           Inr (DictValue [(''sample'', sample)], down_block_res_samples))))))))"

datatype 'a outcome = Returned "'a py_value" | Raised py_error | Suspended

text \<open>\<^verbatim>\<open>UNetUnconditionalModel.forward\<close>: the instance after the call, and how the call ended.\<close>

definition forward ::
  "'a backend \<Rightarrow> model \<Rightarrow> 'a \<Rightarrow> timestep_arg \<Rightarrow> model \<times> 'a outcome" where
  "forward B m sample timestep =
     (case (if \<not> is_overwritten m then set_weights B m else (m, None)) of
        (m', Some (Raise e)) \<Rightarrow> (m', Raised e)
      | (m', Some Debugger) \<Rightarrow> (m', Suspended)
      | (m', None) \<Rightarrow>
          (m', case forward_body B m' sample timestep of
                 Inl e \<Rightarrow> Raised e
               | Inr (out, _) \<Rightarrow> Returned out))"

text \<open>A sequence of calls on one instance.\<close>

fun forward_calls ::
  "'a backend \<Rightarrow> model \<Rightarrow> ('a \<times> timestep_arg) list \<Rightarrow> model \<times> 'a outcome list" where
  "forward_calls B m [] = (m, [])"
| "forward_calls B m ((sample, timestep) # calls) =
     (case forward B m sample timestep of
        (m', r) \<Rightarrow> (case forward_calls B m' calls of (m'', rs) \<Rightarrow> (m'', r # rs)))"

subsection \<open>Collaborators at the level of tensor shapes\<close>

text \<open>
  To run the orchestrator, the collaborators are given a concrete reading in which a
  tensor is its shape. Only what the shapes need is kept: a convolution checks the channel
  count of its input, a concatenation checks that batch and spatial sizes agree. The
  channel widths the sublayers inside a block expect are the block classes' own business
  and are not checked.
\<close>

type_synonym shape = "nat list"

definition shape_error :: py_error where
  "shape_error = RuntimeError ''shape mismatch''"

text \<open>PyTorch on batched feature maps \<open>[batch, channels, height, width]\<close> (stride 1 for the
  convolutions this file builds); broadcasting is not modelled.\<close>

definition shape_conv2d :: "conv2d_layer \<Rightarrow> shape \<Rightarrow> py_error + shape" where
  "shape_conv2d l x =
     (case x of
        [b, c, h, w] \<Rightarrow>
          if c = conv_in_channels l \<and> 0 < conv_kernel_size l
             \<and> conv_kernel_size l \<le> h + 2 * conv_padding l
             \<and> conv_kernel_size l \<le> w + 2 * conv_padding l
          then Inr [b, conv_out_channels l,
                    h + 2 * conv_padding l + 1 - conv_kernel_size l,
                    w + 2 * conv_padding l + 1 - conv_kernel_size l]
          else Inl shape_error
      | _ \<Rightarrow> Inl shape_error)"

definition shape_linear :: "linear_layer \<Rightarrow> shape \<Rightarrow> py_error + shape" where
  "shape_linear l x =
     (if x \<noteq> [] \<and> last x = in_features l then Inr (butlast x @ [out_features l])
      else Inl shape_error)"

definition shape_group_norm :: "group_norm_layer \<Rightarrow> shape \<Rightarrow> py_error + shape" where
  "shape_group_norm l x =
     (case x of
        b # c # rest \<Rightarrow> if c = gn_num_channels l then Inr x else Inl shape_error
      | _ \<Rightarrow> Inl shape_error)"

definition shape_cat :: "shape \<Rightarrow> shape \<Rightarrow> py_error + shape" where
  "shape_cat x y =
     (case (x, y) of
        ([b, c, h, w], [b', c', h', w']) \<Rightarrow>
          if b = b' \<and> h = h' \<and> w = w' then Inr [b, c + c', h, w] else Inl shape_error
      | _ \<Rightarrow> Inl shape_error)"

definition shape_add :: "shape \<Rightarrow> shape \<Rightarrow> py_error + shape" where
  "shape_add x y = (if x = y then Inr x else Inl shape_error)"

definition shape_torch :: "shape torch" where
  "shape_torch =
     \<lparr>conv2d = shape_conv2d, apply_linear = shape_linear, apply_group_norm = shape_group_norm,
      apply_silu = (\<lambda>x. x), cat_dim1 = shape_cat, add = shape_add,
      device_of = (\<lambda>x. ''cpu'')\<rparr>"

text \<open>Modelled from the spec: the embedding generators of \<^verbatim>\<open>embeddings\<close> (4.1). The
  positional variant maps a sequence of timesteps to \<open>[batch, C]\<close>, the Fourier variant to
  width \<open>2 * embedding_size\<close>.\<close>

definition shape_time_steps :: "time_steps_module \<Rightarrow> ttensor \<Rightarrow> py_error + shape" where
  "shape_time_steps ts t =
     (case t_shape t of
        [n] \<Rightarrow>
          (case ts of
             GaussianFourierProjection None \<Rightarrow> Inl TypeError
           | GaussianFourierProjection (Some e) \<Rightarrow> Inr [n, 2 * e]
           | Timesteps c flip \<Rightarrow> Inr [n, c])
      | _ \<Rightarrow> Inl shape_error)"

text \<open>The type tags that occur in this file: the plain and the skip-combine down blocks, and
  the up blocks.\<close>

definition plain_down_block_types :: "string list" where
  "plain_down_block_types = [''UNetResDownBlock2D'', ''UNetResAttnDownBlock2D'']"

definition skip_down_block_types :: "string list" where
  "skip_down_block_types = [''UNetResSkipDownBlock2D'', ''UNetResAttnSkipDownBlock2D'']"

definition up_block_types :: "string list" where
  "up_block_types = [''UNetResUpBlock2D'', ''UNetResAttnUpBlock2D'']"

text \<open>Modelled from the spec: the residual block (a channel-changing block on feature maps),
  and the resample steps of the blocks. A stride-2 downsampling needs even height and width
  (section 6: sizes a resample step cannot halve fail with a shape error there).\<close>

definition shape_resnet :: "nat \<Rightarrow> shape \<Rightarrow> py_error + shape" where
  "shape_resnet out x =
     (case x of [b, c, h, w] \<Rightarrow> Inr [b, out, h, w] | _ \<Rightarrow> Inl shape_error)"

definition shape_downsample :: "shape \<Rightarrow> py_error + shape" where
  "shape_downsample x =
     (case x of
        [b, c, h, w] \<Rightarrow>
          if even h \<and> even w then Inr [b, c, h div 2, w div 2] else Inl shape_error
      | _ \<Rightarrow> Inl shape_error)"

definition shape_upsample :: "shape \<Rightarrow> py_error + shape" where
  "shape_upsample x =
     (case x of [b, c, h, w] \<Rightarrow> Inr [b, c, 2 * h, 2 * w] | _ \<Rightarrow> Inl shape_error)"

text \<open>Modelled from the spec: the merge of the pyramid tensor into the main path of a
  skip-combine down block (4.3), by elementwise addition after a projection to the width of
  the main path.\<close>

definition shape_merge :: "shape \<Rightarrow> shape \<Rightarrow> py_error + shape" where
  "shape_merge p x =
     (case (p, x) of
        ([b', c', h', w'], [b, c, h, w]) \<Rightarrow>
          if b = b' \<and> h = h' \<and> w = w' then Inr x else Inl shape_error
      | _ \<Rightarrow> Inl shape_error)"

text \<open>Modelled from the spec: the forward method of the down blocks of \<^verbatim>\<open>unet_new\<close> (4.3).
  The configured number of residual blocks run in sequence and the output of each is
  recorded; with a resample step the downsampled output is recorded too. The skip-combine
  variants take the pyramid tensor, downsample it with the main path, merge it in, and
  return it as a third component.\<close>

fun shape_down_resnets :: "nat \<Rightarrow> nat \<Rightarrow> shape \<Rightarrow> py_error + shape \<times> shape list" where
  "shape_down_resnets 0 out x = Inr (x, [])"
| "shape_down_resnets (Suc n) out x =
     and_then (shape_resnet out x) (\<lambda>y.
     and_then (shape_down_resnets n out y) (\<lambda>(z, outs). Inr (z, y # outs)))"

definition shape_down_block ::
  "down_block \<Rightarrow> shape \<Rightarrow> shape \<Rightarrow> shape option \<Rightarrow> py_error + shape \<times> shape list \<times> shape option"
  where
  "shape_down_block blk x emb sk =
     (let is_skip = (d_block_type blk \<in> set skip_down_block_types) in
      and_then (shape_down_resnets (d_num_layers blk) (d_out_channels blk) x) (\<lambda>(x1, outs).
        if add_downsample blk then
          and_then (shape_downsample x1) (\<lambda>x2.
            if is_skip then
              require sk TypeError (\<lambda>p.
                and_then (shape_downsample p) (\<lambda>p'.
                and_then (shape_merge p' x2) (\<lambda>x3. Inr (x3, outs @ [x3], Some p'))))
            else Inr (x2, outs @ [x2], None))
        else Inr (x1, outs, if is_skip then sk else None)))"

text \<open>Modelled from the spec: the bottleneck \<^verbatim>\<open>UNetMidBlock2D\<close> (4.4), resolution-preserving
  and channel-preserving.\<close>

definition shape_mid_block :: "mid_block \<Rightarrow> shape \<Rightarrow> shape \<Rightarrow> py_error + shape" where
  "shape_mid_block mb x emb =
     (case x of [b, c, h, w] \<Rightarrow> Inr x | _ \<Rightarrow> Inl shape_error)"

text \<open>Modelled from the spec: the residual steps of an up block (4.5). Each step takes the
  last skip tensor that is left, concatenates it onto the channels of the running tensor
  and applies a residual block.\<close>

fun shape_up_resnets :: "nat \<Rightarrow> nat \<Rightarrow> shape \<Rightarrow> shape list \<Rightarrow> py_error + shape" where
  "shape_up_resnets 0 out x res = Inr x"
| "shape_up_resnets (Suc n) out x res =
     (if res = [] then Inl IndexError
      else and_then (shape_cat x (last res)) (\<lambda>y.
           and_then (shape_resnet out y) (\<lambda>z. shape_up_resnets n out z (butlast res))))"

text \<open>Modelled from the spec: the forward method of the up blocks of \<^verbatim>\<open>unet_new\<close> (4.5), with
  \<open>num_layers\<close> residual steps and, when configured, an upsampling step at the end.\<close>

definition shape_up_block :: "up_block \<Rightarrow> shape \<Rightarrow> shape list \<Rightarrow> shape \<Rightarrow> py_error + shape" where
  "shape_up_block blk x res emb =
     and_then (shape_up_resnets (u_num_layers blk) (u_out_channels blk) x res) (\<lambda>y.
       if add_upsample blk then shape_upsample y
       else (case y of [b, c, h, w] \<Rightarrow> Inr y | _ \<Rightarrow> Inl shape_error))"

text \<open>Modelled from the spec: the shape-level backend. A block has a pyramid path exactly
  when its tag is a skip-combine tag; an up block holds \<open>num_layers\<close> residual blocks; the
  weight copies go through and the debugger is installed.\<close>

definition shape_backend :: "shape backend" where
  "shape_backend =
     \<lparr>torch_ops = shape_torch,
      time_steps_forward = shape_time_steps,
      has_skip_path = (\<lambda>blk. Inr (d_block_type blk \<in> set skip_down_block_types)),
      down_block_forward = shape_down_block,
      mid_block_forward = shape_mid_block,
      up_block_forward = shape_up_block,
      len_resnets = u_num_layers,
      copy_ldm_weights = (\<lambda>m. None),
      copy_ddpm_weights = (\<lambda>m. None),
      ipdb_installed = True\<rparr>"

text \<open>Modelled from the spec: the block factories \<^verbatim>\<open>get_down_block\<close> and \<^verbatim>\<open>get_up_block\<close> of
  \<^verbatim>\<open>unet_new\<close> (section 6: an unrecognized type tag fails at construction time), and
  constructors of the other collaborator classes, which accept what they are given.\<close>

definition spec_factories :: factories where
  "spec_factories =
     \<lparr>get_down_block = (\<lambda>blk.
        if d_block_type blk \<in> set (plain_down_block_types @ skip_down_block_types) then None
        else Some (ValueError (d_block_type blk @ '' does not exist.''))),
      get_up_block = (\<lambda>blk.
        if u_block_type blk \<in> set up_block_types then None
        else Some (ValueError (u_block_type blk @ '' does not exist.''))),
      UNetMidBlock2D = (\<lambda>mb. None),
      new_GaussianFourierProjection = (\<lambda>e. case e of None \<Rightarrow> Some TypeError | Some n \<Rightarrow> None),
      legacy_layers = (\<lambda>mode. None)\<rparr>"

text \<open>The up loop as step 6 of section 4.6 of the spec words it, with the up blocks taken in
  reverse construction order; for comparison with \<open>up_pass\<close>.\<close>

definition up_pass_reverse_order ::
  "'a backend \<Rightarrow> up_block list \<Rightarrow> 'a \<Rightarrow> 'a list \<Rightarrow> 'a \<Rightarrow> py_error + 'a \<times> 'a list" where
  "up_pass_reverse_order B blks sample res emb = up_pass B (rev blks) sample res emb"

subsection \<open>Invariants of the shape-level run\<close>

text \<open>A feature map with batch size \<open>b\<close> and spatial size \<open>h\<close> by \<open>w\<close>, of any channel count.\<close>

definition fmap :: "nat \<Rightarrow> nat \<Rightarrow> nat \<Rightarrow> shape \<Rightarrow> bool" where
  "fmap b h w x = (case x of [b', c, h', w'] \<Rightarrow> b' = b \<and> h' = h \<and> w' = w | _ \<Rightarrow> False)"

text \<open>A skip buffer made of \<open>k\<close> groups of \<open>n\<close> feature maps each: the last group at size
  \<open>h\<close> by \<open>w\<close>, each group before it at twice the size of the next.\<close>

fun groups_ok :: "nat \<Rightarrow> nat \<Rightarrow> nat \<Rightarrow> nat \<Rightarrow> nat \<Rightarrow> shape list \<Rightarrow> bool" where
  "groups_ok b h w n 0 buf = (buf = [])"
| "groups_ok b h w n (Suc k) buf =
     (n \<le> length buf \<and> list_all (fmap b h w) (drop (length buf - n) buf)
      \<and> groups_ok b (2 * h) (2 * w) n k (take (length buf - n) buf))"

text \<open>A non-empty list of down blocks with \<open>R\<close> residual blocks each, all but the last with a
  resample step; and the same for up blocks, which hold \<open>R + 1\<close> residual blocks.\<close>

fun down_ok :: "nat \<Rightarrow> down_block list \<Rightarrow> bool" where
  "down_ok R [] = False"
| "down_ok R [d] = (d_num_layers d = R \<and> \<not> add_downsample d)"
| "down_ok R (d # ds) = (d_num_layers d = R \<and> add_downsample d \<and> down_ok R ds)"

fun up_ok :: "nat \<Rightarrow> up_block list \<Rightarrow> bool" where
  "up_ok R [] = False"
| "up_ok R [u] = (u_num_layers u = R + 1 \<and> \<not> add_upsample u)"
| "up_ok R (u # us) = (u_num_layers u = R + 1 \<and> add_upsample u \<and> up_ok R us)"

subsection \<open>Two configurations to run\<close>

text \<open>A plain configuration with two levels (all three conversion flags off), and a
  score-based one that leaves \<^verbatim>\<open>sde\<close> at its default.\<close>

definition plain_args :: init_args where
  "plain_args =
     default_args\<lparr>a_sde := False, a_in_channels := Some 3, a_out_channels := Some 5,
       a_num_res_blocks := Some 2, a_block_channels := [64, 128],
       a_down_blocks := [''UNetResDownBlock2D'', ''UNetResAttnDownBlock2D''],
       a_up_blocks := [''UNetResAttnUpBlock2D'', ''UNetResUpBlock2D'']\<rparr>"

definition sde_args :: init_args where
  "sde_args =
     default_args\<lparr>a_image_size := Some 32, a_num_res_blocks := Some 2, a_nf := Some 32,
       a_ch_mult := Some [1, 2, 2, 2], a_num_channels := Some 3,
       a_attn_resolutions := Some [16], a_progressive := Some ''none'',
       a_progressive_combine := Some ''sum'', a_resamp_with_conv := Some True,
       a_fir := Some True\<rparr>"

text \<open>The instances the constructor builds from them with the factories of the spec.\<close>

definition plain_model :: model where
  "plain_model =
     \<lparr>config = register_to_config plain_args,
      m_image_size = None,
      conv_in = \<lparr>conv_name = ''conv_in'', conv_in_channels = 3, conv_out_channels = 64,
                  conv_kernel_size = 3, conv_padding = 1\<rparr>,
      time_steps = Timesteps 64 True,
      time_embedding =
        \<lparr>linear_1 = \<lparr>lin_name = ''linear_1'', in_features = 64, out_features = 256\<rparr>,
         act = Some SiLU,
         linear_2 = \<lparr>lin_name = ''linear_2'', in_features = 256, out_features = 256\<rparr>\<rparr>,
      downsample_blocks =
        [\<lparr>d_block_type = ''UNetResDownBlock2D'', d_num_layers = 2, d_in_channels = 64,
            d_out_channels = 64, d_temb_channels = 256, add_downsample = True,
            d_resnet_act_fn = ''silu'', d_attn_num_head_channels = 32,
            d_downsample_padding = 1\<rparr>,
         \<lparr>d_block_type = ''UNetResAttnDownBlock2D'', d_num_layers = 2, d_in_channels = 64,
            d_out_channels = 128, d_temb_channels = 256, add_downsample = False,
            d_resnet_act_fn = ''silu'', d_attn_num_head_channels = 32,
            d_downsample_padding = 1\<rparr>],
      mid = MidBlock \<lparr>m_in_channels = 128, m_temb_channels = 256\<rparr>,
      mid_new_2 = None,
      upsample_blocks =
        [\<lparr>u_block_type = ''UNetResAttnUpBlock2D'', u_num_layers = 3, u_in_channels = 64,
            u_out_channels = 128, u_prev_output_channel = 128, u_temb_channels = 256,
            add_upsample = True, u_resnet_act_fn = ''silu'',
            u_attn_num_head_channels = 32\<rparr>,
         \<lparr>u_block_type = ''UNetResUpBlock2D'', u_num_layers = 3, u_in_channels = 64,
            u_out_channels = 64, u_prev_output_channel = 128, u_temb_channels = 256,
            add_upsample = False, u_resnet_act_fn = ''silu'',
            u_attn_num_head_channels = 32\<rparr>],
      conv_norm_out = \<lparr>gn_num_channels = 64, gn_num_groups = 32\<rparr>,
      conv_out = \<lparr>conv_name = ''conv_out'', conv_in_channels = 64, conv_out_channels = 5,
                   conv_kernel_size = 3, conv_padding = 1\<rparr>,
      is_overwritten = False,
      legacy = [],
      combiners = []\<rparr>"

definition sde_model :: model where
  "sde_model =
     \<lparr>config = (register_to_config sde_args)
                  \<lparr>cfg_time_embedding_type := ''fourier'', cfg_time_embedding_act_fn := None\<rparr>,
      m_image_size = Some 32,
      conv_in = \<lparr>conv_name = ''conv_in'', conv_in_channels = 3, conv_out_channels = 32,
                  conv_kernel_size = 3, conv_padding = 1\<rparr>,
      time_steps = GaussianFourierProjection (Some 32),
      time_embedding =
        \<lparr>linear_1 = \<lparr>lin_name = ''linear_1'', in_features = 64, out_features = 128\<rparr>,
         act = None,
         linear_2 = \<lparr>lin_name = ''linear_2'', in_features = 128, out_features = 128\<rparr>\<rparr>,
      downsample_blocks =
        [\<lparr>d_block_type = ''UNetResSkipDownBlock2D'', d_num_layers = 2, d_in_channels = 32,
            d_out_channels = 32, d_temb_channels = 128, add_downsample = True,
            d_resnet_act_fn = ''silu'', d_attn_num_head_channels = 32,
            d_downsample_padding = 1\<rparr>,
         \<lparr>d_block_type = ''UNetResAttnSkipDownBlock2D'', d_num_layers = 2, d_in_channels = 32,
            d_out_channels = 64, d_temb_channels = 128, add_downsample = True,
            d_resnet_act_fn = ''silu'', d_attn_num_head_channels = 32,
            d_downsample_padding = 1\<rparr>,
         \<lparr>d_block_type = ''UNetResSkipDownBlock2D'', d_num_layers = 2, d_in_channels = 64,
            d_out_channels = 64, d_temb_channels = 128, add_downsample = True,
            d_resnet_act_fn = ''silu'', d_attn_num_head_channels = 32,
            d_downsample_padding = 1\<rparr>,
         \<lparr>d_block_type = ''UNetResSkipDownBlock2D'', d_num_layers = 2, d_in_channels = 64,
            d_out_channels = 64, d_temb_channels = 128, add_downsample = False,
            d_resnet_act_fn = ''silu'', d_attn_num_head_channels = 32,
            d_downsample_padding = 1\<rparr>],
      mid = MidBlock \<lparr>m_in_channels = 64, m_temb_channels = 128\<rparr>,
      mid_new_2 = None,
      upsample_blocks =
        [\<lparr>u_block_type = ''UNetResAttnUpBlock2D'', u_num_layers = 3, u_in_channels = 64,
            u_out_channels = 64, u_prev_output_channel = 64, u_temb_channels = 128,
            add_upsample = True, u_resnet_act_fn = ''silu'',
            u_attn_num_head_channels = 32\<rparr>,
         \<lparr>u_block_type = ''UNetResAttnUpBlock2D'', u_num_layers = 3, u_in_channels = 64,
            u_out_channels = 64, u_prev_output_channel = 64, u_temb_channels = 128,
            add_upsample = True, u_resnet_act_fn = ''silu'',
            u_attn_num_head_channels = 32\<rparr>,
         \<lparr>u_block_type = ''UNetResAttnUpBlock2D'', u_num_layers = 3, u_in_channels = 32,
            u_out_channels = 64, u_prev_output_channel = 64, u_temb_channels = 128,
            add_upsample = True, u_resnet_act_fn = ''silu'',
            u_attn_num_head_channels = 32\<rparr>,
         \<lparr>u_block_type = ''UNetResUpBlock2D'', u_num_layers = 3, u_in_channels = 32,
            u_out_channels = 32, u_prev_output_channel = 64, u_temb_channels = 128,
            add_upsample = False, u_resnet_act_fn = ''silu'',
            u_attn_num_head_channels = 32\<rparr>],
      conv_norm_out = \<lparr>gn_num_channels = 32, gn_num_groups = 32\<rparr>,
      conv_out = \<lparr>conv_name = ''conv_out'', conv_in_channels = 32, conv_out_channels = 3,
                   conv_kernel_size = 3, conv_padding = 1\<rparr>,
      is_overwritten = False,
      legacy = [''act'', ''pyramid_downsample'', ''all_modules''],
      combiners =
        [\<lparr>Conv_0 = \<lparr>conv_name = ''Conv_0'', conv_in_channels = 3, conv_out_channels = 32,
                       conv_kernel_size = 1, conv_padding = 0\<rparr>,
            c_method = ''sum''\<rparr>,
         \<lparr>Conv_0 = \<lparr>conv_name = ''Conv_0'', conv_in_channels = 3, conv_out_channels = 64,
                       conv_kernel_size = 1, conv_padding = 0\<rparr>,
            c_method = ''sum''\<rparr>,
         \<lparr>Conv_0 = \<lparr>conv_name = ''Conv_0'', conv_in_channels = 3, conv_out_channels = 64,
                       conv_kernel_size = 1, conv_padding = 0\<rparr>,
            c_method = ''sum''\<rparr>]\<rparr>"

text \<open>The skip buffer of \<open>plain_model\<close> after the down pass on a sample of shape
  \<open>[1, 3, 32, 32]\<close>.\<close>

definition plain_down_buffer :: "shape list" where
  "plain_down_buffer =
     [[1, 64, 32, 32], [1, 64, 32, 32], [1, 64, 32, 32], [1, 64, 16, 16],
      [1, 128, 16, 16], [1, 128, 16, 16]]"

section \<open>Properties\<close>

subsection \<open>Sequencing\<close>

lemma and_then_Inr: "and_then r f = Inr y \<longleftrightarrow> (\<exists>v. r = Inr v \<and> f v = Inr y)"
  by (cases r) (simp_all add: and_then_def)

lemma or_raise_Inr: "or_raise r k = Inr y \<longleftrightarrow> (r = None \<and> k = Inr y)"
  by (cases r) (simp_all add: or_raise_def)

lemma require_Inr: "require v e f = Inr y \<longleftrightarrow> (\<exists>x. v = Some x \<and> f x = Inr y)"
  by (cases v) (simp_all add: require_def)

lemma and_then_simps:
  "and_then (Inr v) f = f v"
  "and_then (Inl e) f = Inl e"
  by (simp_all add: and_then_def)

lemma or_raise_simps:
  "or_raise None k = k"
  "or_raise (Some e) k = Inl e"
  by (simp_all add: or_raise_def)

lemma require_simps:
  "require (Some x) e f = f x"
  "require None e f = Inl e"
  by (simp_all add: require_def)

subsection \<open>The skip-combine module\<close>

text \<open>
  C4 (as amended). A method string other than \<open>''cat''\<close> and \<open>''sum''\<close> is accepted by the
  constructor of \<^verbatim>\<open>Combine\<close>, which stores it unchecked. The error surfaces when the module
  is called: \<^verbatim>\<open>forward\<close> first applies the 1x1 convolution and then, unless the convolution
  itself raised, raises \<^verbatim>\<open>ValueError("Method ... not recognized.")\<close>.
\<close>

theorem Combine_unrecognized_method:
  assumes "meth \<noteq> ''cat''" and "meth \<noteq> ''sum''"
  shows "\<exists>c. Combine_init dim1 dim2 meth = Inr c \<and> c_method c = meth \<and>
           Combine_forward T c x y =
             (case conv2d T (Conv_0 c) x of
                Inl e \<Rightarrow> Inl e
              | Inr h \<Rightarrow> Inl (ValueError (''Method '' @ meth @ '' not recognized.'')))"
  using assms by (simp add: Combine_init_def Combine_forward_def split: sum.splits)

theorem Combine_unrecognized_method_witness:
  "''xor'' \<noteq> ''cat'' \<and> ''xor'' \<noteq> ''sum'' \<and>
   (\<exists>c. Combine_init 3 8 ''xor'' = Inr c \<and> c_method c = ''xor'' \<and>
      Combine_forward shape_torch c [1, 3, 16, 16] [1, 8, 16, 16] =
        Inl (ValueError ''Method xor not recognized.''))"
  using Combine_unrecognized_method [of "''xor''" 3 8 shape_torch "[1, 3, 16, 16]" "[1, 8, 16, 16]"]
  by (simp add: Combine_init_def shape_torch_def shape_conv2d_def)

text \<open>The claim C4 as it was stated fails: constructing \<^verbatim>\<open>Combine(3, 8, method="xor")\<close> raises
  nothing and returns the module.\<close>

theorem Combine_init_accepts_xor:
  "Combine_init 3 8 ''xor'' =
     Inr \<lparr>Conv_0 = \<lparr>conv_name = ''Conv_0'', conv_in_channels = 3, conv_out_channels = 8,
                     conv_kernel_size = 1, conv_padding = 0\<rparr>,
          c_method = ''xor''\<rparr>"
  by (simp add: Combine_init_def)

subsection \<open>The timestep MLP\<close>

text \<open>
  C8. \<^verbatim>\<open>TimestepEmbedding\<close> built for widths \<open>channel\<close> and \<open>time_embed_dim\<close> maps its input
  through a linear layer \<open>channel \<rightarrow> time_embed_dim\<close>, then through SiLU when the activation
  kind is \<open>''silu''\<close> and through the identity otherwise (in particular when it is unset),
  then through a linear layer \<open>time_embed_dim \<rightarrow> time_embed_dim\<close>; the result depends on
  nothing but the input and the two layers.
\<close>

theorem TimestepEmbedding_contract:
  "TimestepEmbedding_forward T (TimestepEmbedding_init channel time_embed_dim act_fn) x =
     and_then
       (apply_linear T \<lparr>lin_name = ''linear_1'', in_features = channel,
                        out_features = time_embed_dim\<rparr> x)
       (\<lambda>y. apply_linear T \<lparr>lin_name = ''linear_2'', in_features = time_embed_dim,
                             out_features = time_embed_dim\<rparr>
               (if act_fn = Some ''silu'' then apply_silu T y else y))"
  by (simp add: TimestepEmbedding_forward_def TimestepEmbedding_init_def and_then_def
           split: sum.splits)

subsection \<open>Normalisation of the timestep\<close>

lemma conditioning_normalizes_first:
  "conditioning B m sample timestep =
     and_then (normalize_timestep timestep (device_of (torch_ops B) sample))
       (\<lambda>timesteps. and_then (time_steps_forward B (time_steps m) timesteps)
          (TimestepEmbedding_forward (torch_ops B) (time_embedding m)))"
  by (simp add: conditioning_def)

text \<open>
  C7. The first step of \<^verbatim>\<open>forward\<close> turns the timestep into a one-dimensional tensor: a
  Python number (that fits 64 bits once truncated) becomes a tensor of shape \<open>[1]\<close> and
  element type \<^verbatim>\<open>long\<close> on the device of the sample; a 0-dimensional tensor becomes a tensor
  of shape \<open>[1]\<close> with the same element, moved to the device of the sample; a
  one-dimensional tensor is passed on as it is.
\<close>

theorem normalize_timestep_contract:
  "(in_int64 (trunc_number v) \<longrightarrow>
      normalize_timestep (ScalarArg v) dev =
        Inr \<lparr>t_shape = [1], t_dtype = Long, t_device = dev, t_data = [PyInt (trunc_number v)]\<rparr>)
   \<and> (t_shape t = [] \<longrightarrow>
      normalize_timestep (TensorArg t) dev = Inr (t\<lparr>t_shape := [1], t_device := dev\<rparr>))
   \<and> (length (t_shape t) = 1 \<longrightarrow> normalize_timestep (TensorArg t) dev = Inr t)"
  by (simp add: normalize_timestep_def torch_tensor_long_def)

theorem normalize_timestep_contract_witness:
  "in_int64 (trunc_number (PyFloat (5 / 2)))
   \<and> normalize_timestep (ScalarArg (PyFloat (5 / 2))) ''cuda'' =
       Inr \<lparr>t_shape = [1], t_dtype = Long, t_device = ''cuda'', t_data = [PyInt 2]\<rparr>
   \<and> normalize_timestep
        (TensorArg \<lparr>t_shape = [], t_dtype = Long, t_device = ''cpu'', t_data = [PyInt 7]\<rparr>) ''cuda'' =
       Inr \<lparr>t_shape = [1], t_dtype = Long, t_device = ''cuda'', t_data = [PyInt 7]\<rparr>
   \<and> normalize_timestep
        (TensorArg \<lparr>t_shape = [2], t_dtype = Long, t_device = ''cpu'',
                    t_data = [PyInt 7, PyInt 8]\<rparr>) ''cuda'' =
       Inr \<lparr>t_shape = [2], t_dtype = Long, t_device = ''cpu'', t_data = [PyInt 7, PyInt 8]\<rparr>"
  using normalize_timestep_contract
          [of "PyFloat (5 / 2)" "''cuda''"
              "\<lparr>t_shape = [], t_dtype = Long, t_device = ''cpu'', t_data = [PyInt 7]\<rparr>"]
        normalize_timestep_contract
          [of "PyFloat (5 / 2)" "''cuda''"
              "\<lparr>t_shape = [2], t_dtype = Long, t_device = ''cpu'', t_data = [PyInt 7, PyInt 8]\<rparr>"]
  by (simp add: in_int64_def trunc_number_def)

subsection \<open>The overrides of the sde flag\<close>

text \<open>
  C9. When \<^verbatim>\<open>sde\<close> is true, then before any block is built the constructor rebinds
  \<^verbatim>\<open>block_channels\<close> to \<^verbatim>\<open>nf\<close> times each entry of \<^verbatim>\<open>ch_mult\<close>, \<^verbatim>\<open>in_channels\<close> and
  \<^verbatim>\<open>out_channels\<close> to \<^verbatim>\<open>num_channels\<close>, \<^verbatim>\<open>conv_resample\<close> to \<^verbatim>\<open>resamp_with_conv\<close>, the embedding
  kind to \<open>''fourier''\<close> (also in the configuration, where the embedding activation is
  cleared), and \<^verbatim>\<open>down_blocks\<close> to the four skip-variant tags, whatever the caller passed
  for these options.
\<close>

theorem sde_overrides:
  assumes "a_sde a" and "a_nf a = Some nf" and "a_ch_mult a = Some ch_mult"
  shows "init_overrides a =
           Inr \<lparr>l_block_channels = map (\<lambda>x. nf * x) ch_mult,
                l_in_channels = a_num_channels a,
                l_out_channels = a_num_channels a,
                l_conv_resample = a_resamp_with_conv a,
                l_time_embedding_type = ''fourier'',
                l_down_blocks = [''UNetResSkipDownBlock2D'', ''UNetResAttnSkipDownBlock2D'',
                                 ''UNetResSkipDownBlock2D'', ''UNetResSkipDownBlock2D''],
                l_config = (register_to_config a)
                   \<lparr>cfg_time_embedding_type := ''fourier'', cfg_time_embedding_act_fn := None\<rparr>\<rparr>"
  using assms
  by (simp add: init_overrides_def scale_channels_def and_then_def sde_down_blocks_def)

theorem sde_overrides_witness:
  "a_sde sde_args \<and> a_nf sde_args = Some 32 \<and> a_ch_mult sde_args = Some [1, 2, 2, 2] \<and>
   init_overrides sde_args =
     Inr \<lparr>l_block_channels = [32, 64, 64, 64],
          l_in_channels = Some 3,
          l_out_channels = Some 3,
          l_conv_resample = Some True,
          l_time_embedding_type = ''fourier'',
          l_down_blocks = [''UNetResSkipDownBlock2D'', ''UNetResAttnSkipDownBlock2D'',
                           ''UNetResSkipDownBlock2D'', ''UNetResSkipDownBlock2D''],
          l_config = (register_to_config sde_args)
             \<lparr>cfg_time_embedding_type := ''fourier'', cfg_time_embedding_act_fn := None\<rparr>\<rparr>"
  using sde_overrides [of sde_args 32 "[1, 2, 2, 2]"]
  by (simp add: sde_args_def default_args_def)

subsection \<open>What the constructor establishes\<close>

lemmas seq_simps = and_then_simps or_raise_simps require_simps

lemma init_overrides_config:
  "init_overrides a = Inr lc \<Longrightarrow>
     cfg_ldm (l_config lc) = a_ldm a \<and> cfg_ddpm (l_config lc) = a_ddpm a \<and>
     cfg_sde (l_config lc) = a_sde a"
  by (auto simp: init_overrides_def register_to_config_def and_then_Inr Let_def split: if_splits)

lemma init_legacy_frame:
  assumes "init_legacy F a lc m0 = Inr m"
  shows "config m = config m0 \<and> is_overwritten m = is_overwritten m0 \<and>
         downsample_blocks m = downsample_blocks m0 \<and> upsample_blocks m = upsample_blocks m0 \<and>
         time_steps m = time_steps m0 \<and> time_embedding m = time_embedding m0 \<and>
         conv_norm_out m = conv_norm_out m0 \<and> mid_new_2 m = mid_new_2 m0"
  using assms
  by (auto simp: init_legacy_def and_then_Inr require_Inr Let_def split: if_splits)

lemma init_legacy_sde_all_modules:
  assumes "init_legacy F a lc m0 = Inr m" and "a_sde a" and "\<not> a_ldm a" and "\<not> a_ddpm a"
  shows "''all_modules'' \<in> set (legacy m)"
  using assms
  by (auto simp: init_legacy_def init_for_sde_def and_then_Inr require_Inr or_raise_Inr Let_def
           split: if_splits)

lemma init_Inr_cases:
  assumes "init F a = Inr m"
  obtains lc cin ts tid downs ups norm cout where
    "init_overrides a = Inr lc"
    "l_block_channels lc \<noteq> []"
    "new_Conv2d ''conv_in'' (l_in_channels lc) (Some (l_block_channels lc ! 0)) 3 1 = Inr cin"
    "build_time_steps F a lc (l_block_channels lc ! 0) = Inr (ts, tid)"
    "build_down_blocks F a (l_block_channels lc) (l_block_channels lc ! 0 * 4) 0
        (l_block_channels lc ! 0) (l_down_blocks lc) = Inr downs"
    "build_up_blocks F a (rev (l_block_channels lc)) (l_block_channels lc ! 0 * 4) 0
        (rev (l_block_channels lc) ! 0) (a_up_blocks a) = Inr ups"
    "new_GroupNorm (l_block_channels lc ! 0) 32 = Inr norm"
    "new_Conv2d ''conv_out'' (Some (l_block_channels lc ! 0)) (l_out_channels lc) 3 1 = Inr cout"
    "init_legacy F a lc
       \<lparr>config = l_config lc, m_image_size = a_image_size a, conv_in = cin,
        time_steps = ts,
        time_embedding = TimestepEmbedding_init tid (l_block_channels lc ! 0 * 4)
                           (cfg_time_embedding_act_fn (l_config lc)),
        downsample_blocks = downs,
        mid = (if cfg_ddpm (l_config lc) then MidNone
               else MidBlock \<lparr>m_in_channels = last (l_block_channels lc),
                               m_temb_channels = l_block_channels lc ! 0 * 4\<rparr>),
        mid_new_2 = (if cfg_ddpm (l_config lc)
                     then Some \<lparr>m_in_channels = last (l_block_channels lc),
                                m_temb_channels = l_block_channels lc ! 0 * 4\<rparr>
                     else None),
        upsample_blocks = ups, conv_norm_out = norm, conv_out = cout,
        is_overwritten = False, legacy = [], combiners = []\<rparr> = Inr m"
  using assms
  by (auto simp: init_def and_then_Inr or_raise_Inr Let_def split: if_splits prod.splits)

lemma init_flags:
  assumes "init F a = Inr m"
  shows "is_overwritten m = False \<and> cfg_ldm (config m) = a_ldm a \<and>
         cfg_ddpm (config m) = a_ddpm a \<and> cfg_sde (config m) = a_sde a"
  using assms
  by (elim init_Inr_cases) (auto dest!: init_legacy_frame init_overrides_config)

lemma init_sde_all_modules:
  assumes "init F a = Inr m" and "a_sde a" and "\<not> a_ldm a" and "\<not> a_ddpm a"
  shows "''all_modules'' \<in> set (legacy m)"
  using assms
  by (elim init_Inr_cases) (auto dest!: init_legacy_sde_all_modules)

lemma init_plain_args: "init spec_factories plain_args = Inr plain_model"
  by (simp add: init_def init_overrides_def plain_args_def default_args_def plain_model_def
        register_to_config_def new_Conv2d_def build_time_steps_def TimestepEmbedding_init_def
        spec_factories_def plain_down_block_types_def skip_down_block_types_def
        up_block_types_def new_GroupNorm_def init_legacy_def seq_simps Let_def)

lemma init_sde_args: "init spec_factories sde_args = Inr sde_model"
  by (simp add: init_def init_overrides_def sde_args_def default_args_def sde_model_def
        register_to_config_def new_Conv2d_def build_time_steps_def TimestepEmbedding_init_def
        spec_factories_def plain_down_block_types_def skip_down_block_types_def
        up_block_types_def new_GroupNorm_def init_legacy_def init_for_sde_def
        scale_channels_def sde_down_blocks_def str_lower_def Combine_init_def
        seq_simps Let_def)

subsection \<open>The first call of forward\<close>

lemma del_attrs_frame:
  "\<exists>names. fst (del_attrs ns m) = m\<lparr>legacy := names\<rparr>"
proof (induction ns arbitrary: m)
  case Nil
  have "m = m\<lparr>legacy := legacy m\<rparr>" by simp
  then show ?case by (metis del_attrs.simps(1) fst_conv)
next
  case (Cons n ns)
  show ?case
  proof (cases "n \<in> set (legacy m)")
    case True
    from Cons.IH [of "m\<lparr>legacy := removeAll n (legacy m)\<rparr>"]
    obtain names where "fst (del_attrs ns (m\<lparr>legacy := removeAll n (legacy m)\<rparr>)) =
        m\<lparr>legacy := removeAll n (legacy m)\<rparr>\<lparr>legacy := names\<rparr>" by blast
    with True show ?thesis by (intro exI [of _ names]) simp
  next
    case False
    have "m = m\<lparr>legacy := legacy m\<rparr>" by simp
    with False show ?thesis by (metis del_attrs.simps(2) fst_conv)
  qed
qed

lemma set_weights_frame:
  "\<exists>names. fst (set_weights B m) = m\<lparr>is_overwritten := True, legacy := names\<rparr>"
proof -
  let ?m = "m\<lparr>is_overwritten := True\<rparr>"
  have self: "?m = m\<lparr>is_overwritten := True, legacy := legacy m\<rparr>" by simp
  obtain n1 where n1: "fst (remove_ldm ?m) = ?m\<lparr>legacy := n1\<rparr>"
    using del_attrs_frame [of _ ?m] unfolding remove_ldm_def by blast
  obtain n2 where n2: "fst (remove_ddpm ?m) = ?m\<lparr>legacy := n2\<rparr>"
    using del_attrs_frame [of _ ?m] unfolding remove_ddpm_def by blast
  have "fst (set_weights B m) = ?m \<or> fst (set_weights B m) = fst (remove_ldm ?m)
        \<or> fst (set_weights B m) = fst (remove_ddpm ?m)"
    by (auto simp: set_weights_def Let_def split: option.splits prod.splits)
  then show ?thesis using self n1 n2 by (metis (no_types))
qed

lemma forward_state:
  "fst (forward B m s t) = (if is_overwritten m then m else fst (set_weights B m))"
  by (auto simp: forward_def split: prod.splits option.splits halt.splits)

text \<open>
  C10. On an instance fresh from the constructor the flag \<^verbatim>\<open>is_overwritten\<close> is false, so the
  first call of \<^verbatim>\<open>forward\<close> runs \<^verbatim>\<open>set_weights\<close> before anything else, and the flag is true
  afterwards. When \<^verbatim>\<open>sde\<close> is true and \<^verbatim>\<open>ldm\<close> and \<^verbatim>\<open>ddpm\<close> are false (the defaults), so that
  the sde branch of \<^verbatim>\<open>set_weights\<close> is the one taken, that call does not return: it stops in
  the debugger at \<^verbatim>\<open>ipdb.set_trace()\<close> (or, without the module \<^verbatim>\<open>ipdb\<close>, ends with the
  import error), and none of the network is evaluated.
\<close>

theorem first_forward_runs_set_weights:
  assumes "init F a = Inr m"
  shows "\<not> is_overwritten m
       \<and> fst (forward B m sample timestep) = fst (set_weights B m)
       \<and> is_overwritten (fst (forward B m sample timestep))
       \<and> (a_sde a \<and> \<not> a_ldm a \<and> \<not> a_ddpm a \<longrightarrow>
            forward B m sample timestep =
              (m\<lparr>is_overwritten := True\<rparr>,
               if ipdb_installed B then Suspended else Raised ImportError))"
proof -
  from init_flags [OF assms] have fl: "\<not> is_overwritten m" "cfg_ldm (config m) = a_ldm a"
    "cfg_ddpm (config m) = a_ddpm a" "cfg_sde (config m) = a_sde a" by simp_all
  have st: "fst (forward B m sample timestep) = fst (set_weights B m)"
    using fl(1) by (simp add: forward_state)
  obtain names where "fst (set_weights B m) = m\<lparr>is_overwritten := True, legacy := names\<rparr>"
    using set_weights_frame by blast
  then have ov: "is_overwritten (fst (forward B m sample timestep))" using st by simp
  have "forward B m sample timestep =
          (m\<lparr>is_overwritten := True\<rparr>, if ipdb_installed B then Suspended else Raised ImportError)"
    if "a_sde a" "\<not> a_ldm a" "\<not> a_ddpm a"
    using that fl init_sde_all_modules [OF assms that]
    by (simp add: forward_def set_weights_def Let_def)
  with fl(1) st ov show ?thesis by blast
qed

theorem first_forward_runs_set_weights_witness:
  "init spec_factories sde_args = Inr sde_model
   \<and> a_sde sde_args \<and> \<not> a_ldm sde_args \<and> \<not> a_ddpm sde_args
   \<and> \<not> is_overwritten sde_model
   \<and> forward shape_backend sde_model [1, 3, 32, 32] (ScalarArg (PyInt 0)) =
       (sde_model\<lparr>is_overwritten := True\<rparr>, Suspended)"
  using first_forward_runs_set_weights [OF init_sde_args, of shape_backend "[1, 3, 32, 32]"
          "ScalarArg (PyInt 0)"] init_sde_args
  by (simp add: sde_args_def default_args_def shape_backend_def)


subsection \<open>What a call of forward changes\<close>

lemma forward_plain_model:
  "forward shape_backend plain_model [1, 3, 32, 32] (ScalarArg (PyInt 0)) =
     (plain_model\<lparr>is_overwritten := True\<rparr>, Returned (DictValue [(''sample'', [1, 5, 32, 32])]))"
  by code_simp

lemma forward_calls_state:
  "is_overwritten m \<Longrightarrow> fst (forward_calls B m calls) = m"
proof (induction calls)
  case Nil
  then show ?case by simp
next
  case (Cons c calls)
  obtain s t where c: "c = (s, t)" by (cases c)
  from Cons.prems have "fst (forward B m s t) = m" by (simp add: forward_state)
  with Cons show ?case unfolding c by (simp split: prod.splits) (metis fst_conv)
qed

text \<open>
  C6 (as amended). Only the first call of \<^verbatim>\<open>forward\<close> on an instance changes the instance:
  it sets the flag \<^verbatim>\<open>is_overwritten\<close> and, through \<^verbatim>\<open>set_weights\<close>, may delete the conversion
  submodules (\<^verbatim>\<open>remove_ldm\<close>, \<^verbatim>\<open>remove_ddpm\<close>); the configuration, the block graph and every
  other field that is not a weight stay as they are. A call on an instance whose flag is
  set changes nothing, so after any sequence of calls the instance is as the first call
  left it.
\<close>

theorem forward_mutates_only_on_first_call:
  "fst (forward_calls B m ((sample, timestep) # calls)) = fst (forward B m sample timestep)
   \<and> (is_overwritten m \<longrightarrow> fst (forward B m sample timestep) = m)
   \<and> (\<exists>names. fst (forward B m sample timestep) = m\<lparr>is_overwritten := True, legacy := names\<rparr>)"
proof -
  obtain names where n: "fst (set_weights B m) = m\<lparr>is_overwritten := True, legacy := names\<rparr>"
    using set_weights_frame by blast
  have ex: "\<exists>names. fst (forward B m sample timestep) = m\<lparr>is_overwritten := True, legacy := names\<rparr>"
  proof (cases "is_overwritten m")
    case True
    then have "fst (forward B m sample timestep) = m\<lparr>is_overwritten := True, legacy := legacy m\<rparr>"
      by (simp add: forward_state)
    then show ?thesis by blast
  next
    case False
    then have "fst (forward B m sample timestep) = m\<lparr>is_overwritten := True, legacy := names\<rparr>"
      using n by (simp add: forward_state)
    then show ?thesis by blast
  qed
  then have ov: "is_overwritten (fst (forward B m sample timestep))" by auto
  have "fst (forward_calls B m ((sample, timestep) # calls)) =
          fst (forward_calls B (fst (forward B m sample timestep)) calls)"
    by (simp split: prod.splits)
  also have "\<dots> = fst (forward B m sample timestep)"
    using forward_calls_state [OF ov] .
  finally show ?thesis using ex by (simp add: forward_state)
qed

theorem forward_mutates_only_on_first_call_witness:
  "is_overwritten (plain_model\<lparr>is_overwritten := True\<rparr>)
   \<and> fst (forward shape_backend (plain_model\<lparr>is_overwritten := True\<rparr>) [1, 3, 32, 32]
            (ScalarArg (PyInt 0))) = plain_model\<lparr>is_overwritten := True\<rparr>
   \<and> fst (forward_calls shape_backend plain_model
            [([1, 3, 32, 32], ScalarArg (PyInt 0)), ([1, 3, 32, 32], ScalarArg (PyInt 5))]) =
       plain_model\<lparr>is_overwritten := True\<rparr>"
  using forward_mutates_only_on_first_call
          [of shape_backend "plain_model\<lparr>is_overwritten := True\<rparr>" "[1, 3, 32, 32]"
              "ScalarArg (PyInt 0)" "[]"]
        forward_mutates_only_on_first_call
          [of shape_backend plain_model "[1, 3, 32, 32]" "ScalarArg (PyInt 0)"
              "[([1, 3, 32, 32], ScalarArg (PyInt 5))]"]
        forward_plain_model
  by simp

text \<open>The claim C6 as it was stated fails: the first call on a freshly constructed instance
  returns normally and leaves the field \<^verbatim>\<open>is_overwritten\<close>, which is not a weight, changed from
  false to true.\<close>

theorem first_forward_changes_the_instance:
  "init spec_factories plain_args = Inr plain_model
   \<and> is_overwritten plain_model = False
   \<and> forward shape_backend plain_model [1, 3, 32, 32] (ScalarArg (PyInt 0)) =
       (plain_model\<lparr>is_overwritten := True\<rparr>,
        Returned (DictValue [(''sample'', [1, 5, 32, 32])]))
   \<and> is_overwritten (plain_model\<lparr>is_overwritten := True\<rparr>) = True"
  using init_plain_args forward_plain_model by (simp add: plain_model_def)

subsection \<open>The up loop\<close>

lemma build_up_blocks_types:
  "build_up_blocks F a rbc ted i oc tys = Inr ups \<Longrightarrow> map u_block_type ups = tys"
proof (induction tys arbitrary: i oc ups)
  case Nil
  then show ?case by simp
next
  case (Cons ty tys)
  then show ?case
    by (auto simp: and_then_Inr or_raise_Inr require_Inr Let_def split: if_splits)
qed

lemma init_upsample_blocks_types:
  assumes "init F a = Inr m"
  shows "map u_block_type (upsample_blocks m) = a_up_blocks a"
  using assms
  by (elim init_Inr_cases) (auto dest!: init_legacy_frame build_up_blocks_types)

text \<open>
  C3 (as amended). \<^verbatim>\<open>forward\<close> runs the up blocks in construction order, the order of the
  argument \<^verbatim>\<open>up_blocks\<close> (the loop is \<^verbatim>\<open>for upsample_block in self.upsample_blocks\<close>). For each
  block, when the skip buffer holds at least \<^verbatim>\<open>len(resnets)\<close> entries and that number is
  positive, exactly \<^verbatim>\<open>len(resnets)\<close> tensors are taken off the end of the buffer and passed to
  the block in the order they had in the buffer (oldest first), together with the running
  tensor and the conditioning vector; the next block runs on the buffer shortened by
  exactly these entries.
\<close>

theorem up_pass_pops_last_in_construction_order:
  assumes "init F a = Inr m"
  shows "map u_block_type (upsample_blocks m) = a_up_blocks a
       \<and> (\<forall>blk blks sample res emb.
            0 < len_resnets B blk \<and> len_resnets B blk \<le> length res \<longrightarrow>
            (\<exists>rest popped.
               res = rest @ popped \<and> length popped = len_resnets B blk \<and>
               up_pass B (blk # blks) sample res emb =
                 and_then (up_block_forward B blk sample popped emb)
                   (\<lambda>s. up_pass B blks s rest emb)))"
proof -
  have "\<exists>rest popped.
          res = rest @ popped \<and> length popped = len_resnets B blk \<and>
          up_pass B (blk # blks) sample res emb =
            and_then (up_block_forward B blk sample popped emb) (\<lambda>s. up_pass B blks s rest emb)"
    if "0 < len_resnets B blk" "len_resnets B blk \<le> length res"
    for blk blks sample emb and res :: "'a list"
  proof (intro exI conjI)
    let ?k = "length res - len_resnets B blk"
    show "res = take ?k res @ drop ?k res" by simp
    show "length (drop ?k res) = len_resnets B blk" using that by simp
    show "up_pass B (blk # blks) sample res emb =
            and_then (up_block_forward B blk sample (drop ?k res) emb)
              (\<lambda>s. up_pass B blks s (take ?k res) emb)"
      using that by (simp add: pop_res_samples_def)
  qed
  with init_upsample_blocks_types [OF assms] show ?thesis by blast
qed


lemma plain_model_down_pass:
  "down_pass shape_backend (downsample_blocks plain_model) [1, 64, 32, 32] [1, 256]
     [1, 3, 32, 32] [[1, 64, 32, 32]] = Inr ([1, 128, 16, 16], plain_down_buffer)"
  by code_simp

theorem up_pass_pops_last_in_construction_order_witness:
  "init spec_factories plain_args = Inr plain_model
   \<and> 0 < len_resnets shape_backend (hd (upsample_blocks plain_model))
   \<and> len_resnets shape_backend (hd (upsample_blocks plain_model)) \<le> length plain_down_buffer
   \<and> map u_block_type (upsample_blocks plain_model) = [''UNetResAttnUpBlock2D'', ''UNetResUpBlock2D'']
   \<and> (\<exists>rest popped.
         plain_down_buffer = rest @ popped \<and> length popped = 3 \<and>
         up_pass shape_backend (upsample_blocks plain_model) [1, 128, 16, 16] plain_down_buffer
             [1, 256] =
           and_then (up_block_forward shape_backend (hd (upsample_blocks plain_model))
                       [1, 128, 16, 16] popped [1, 256])
             (\<lambda>s. up_pass shape_backend (tl (upsample_blocks plain_model)) s rest [1, 256]))"
proof -
  have ups: "upsample_blocks plain_model =
               hd (upsample_blocks plain_model) # tl (upsample_blocks plain_model)"
    by (simp add: plain_model_def)
  have len: "len_resnets shape_backend (hd (upsample_blocks plain_model)) = 3"
    by (simp add: plain_model_def shape_backend_def)
  have buf: "length plain_down_buffer = 6" by (simp add: plain_down_buffer_def)
  have tys: "a_up_blocks plain_args = [''UNetResAttnUpBlock2D'', ''UNetResUpBlock2D'']"
    by (simp add: plain_args_def default_args_def)
  from up_pass_pops_last_in_construction_order [OF init_plain_args, of shape_backend]
  have step: "\<forall>blk blks sample res emb.
            0 < len_resnets shape_backend blk \<and> len_resnets shape_backend blk \<le> length res \<longrightarrow>
            (\<exists>rest popped.
               res = rest @ popped \<and> length popped = len_resnets shape_backend blk \<and>
               up_pass shape_backend (blk # blks) sample res emb =
                 and_then (up_block_forward shape_backend blk sample popped emb)
                   (\<lambda>s. up_pass shape_backend blks s rest emb))"
    and types: "map u_block_type (upsample_blocks plain_model) = a_up_blocks plain_args"
    by blast+
  have pre: "0 < len_resnets shape_backend (hd (upsample_blocks plain_model))
      \<and> len_resnets shape_backend (hd (upsample_blocks plain_model)) \<le> length plain_down_buffer"
    using len buf by simp
  from step [rule_format, OF pre, of "tl (upsample_blocks plain_model)" "[1, 128, 16, 16]" "[1, 256]"]
  have "\<exists>rest popped.
         plain_down_buffer = rest @ popped \<and> length popped = 3 \<and>
         up_pass shape_backend (upsample_blocks plain_model) [1, 128, 16, 16] plain_down_buffer
             [1, 256] =
           and_then (up_block_forward shape_backend (hd (upsample_blocks plain_model))
                       [1, 128, 16, 16] popped [1, 256])
             (\<lambda>s. up_pass shape_backend (tl (upsample_blocks plain_model)) s rest [1, 256])"
    using ups len by simp
  then show ?thesis using pre types tys init_plain_args by simp
qed

text \<open>The claim C3 as it was stated fails in the order of the blocks: on the buffer the down
  pass of \<open>plain_model\<close> leaves, the loop of the source returns, whereas taking the up blocks
  in reverse construction order pairs the blocks with skip tensors of the wrong resolution
  and fails at the first concatenation of the second block.\<close>

theorem up_blocks_not_taken_in_reverse_order:
  "up_pass shape_backend (upsample_blocks plain_model) [1, 128, 16, 16] plain_down_buffer
       [1, 256] = Inr ([1, 64, 32, 32], [])
   \<and> up_pass_reverse_order shape_backend (upsample_blocks plain_model) [1, 128, 16, 16]
       plain_down_buffer [1, 256] = Inl shape_error"
  by code_simp

subsection \<open>The embedding kind at construction\<close>

lemma build_down_blocks_kind:
  "build_down_blocks F (a\<lparr>a_time_embedding_type := k\<rparr>) bc ted i oc tys =
   build_down_blocks F a bc ted i oc tys"
  by (induction tys arbitrary: i oc) (simp_all add: Let_def)

lemma build_up_blocks_kind:
  "build_up_blocks F (a\<lparr>a_time_embedding_type := k\<rparr>) rbc ted i oc tys =
   build_up_blocks F a rbc ted i oc tys"
  by (induction tys arbitrary: i oc) (simp_all add: Let_def)

lemma init_overrides_kind:
  "a_sde a \<Longrightarrow> init_overrides (a\<lparr>a_time_embedding_type := k\<rparr>) = init_overrides a"
  by (simp add: init_overrides_def register_to_config_def Let_def)

lemma init_kind_ignored:
  assumes "a_sde a"
  shows "init F (a\<lparr>a_time_embedding_type := k\<rparr>) = init F a"
proof (cases "init_overrides a")
  case (Inl e)
  then show ?thesis using assms by (simp add: init_def init_overrides_kind and_then_simps)
next
  case (Inr lc)
  then have lc: "init_overrides (a\<lparr>a_time_embedding_type := k\<rparr>) = Inr lc"
    using assms by (simp add: init_overrides_kind)
  have ts: "build_time_steps F (a\<lparr>a_time_embedding_type := k\<rparr>) lc c = build_time_steps F a lc c"
    for c by (simp add: build_time_steps_def)
  have lg: "init_legacy F (a\<lparr>a_time_embedding_type := k\<rparr>) lc m = init_legacy F a lc m" for m
    by (simp add: init_legacy_def Let_def cong: if_cong)
  show ?thesis
    by (simp add: init_def Inr lc ts lg build_down_blocks_kind build_up_blocks_kind and_then_simps
          Let_def cong: if_cong)
qed

lemma init_unknown_kind_fails:
  assumes "\<not> a_sde a" and "a_time_embedding_type a \<noteq> ''fourier''"
    and "a_time_embedding_type a \<noteq> ''positional''"
  shows "\<exists>e. init F a = Inl e"
proof (cases "init F a")
  case (Inl e)
  then show ?thesis by blast
next
  case (Inr m)
  then show ?thesis
  proof (elim init_Inr_cases)
    fix lc ts tid
    assume "init_overrides a = Inr lc"
      and "build_time_steps F a lc (l_block_channels lc ! 0) = Inr (ts, tid)"
    then show ?thesis using assms
      by (auto simp: init_overrides_def register_to_config_def build_time_steps_def Let_def)
  qed
qed

text \<open>
  C5 (as amended). With \<^verbatim>\<open>sde\<close> true (the default) the constructor ignores the argument
  \<^verbatim>\<open>time_embedding_type\<close>: it forces the kind to \<open>''fourier''\<close> before anything reads it, so the
  constructor behaves the same for every kind string and an unrecognized one is no error
  (the \<^verbatim>\<open>ValueError\<close> of \<^verbatim>\<open>init_for_sde\<close> is never reached). With \<^verbatim>\<open>sde\<close> false, constructing the
  model with a kind other than \<open>''positional''\<close> and \<open>''fourier''\<close> fails: no instance is
  returned.
\<close>

theorem embedding_kind_at_construction:
  "(a_sde a \<longrightarrow> init F (a\<lparr>a_time_embedding_type := kind\<rparr>) = init F a)
   \<and> (\<not> a_sde a \<and> a_time_embedding_type a \<noteq> ''fourier''
        \<and> a_time_embedding_type a \<noteq> ''positional'' \<longrightarrow> (\<exists>e. init F a = Inl e))"
  using init_kind_ignored init_unknown_kind_fails by blast

theorem embedding_kind_at_construction_witness:
  "a_sde sde_args
   \<and> init spec_factories (sde_args\<lparr>a_time_embedding_type := ''bogus''\<rparr>) =
       init spec_factories sde_args
   \<and> \<not> a_sde (plain_args\<lparr>a_time_embedding_type := ''bogus''\<rparr>)
   \<and> a_time_embedding_type (plain_args\<lparr>a_time_embedding_type := ''bogus''\<rparr>) \<noteq> ''fourier''
   \<and> a_time_embedding_type (plain_args\<lparr>a_time_embedding_type := ''bogus''\<rparr>) \<noteq> ''positional''
   \<and> (\<exists>e. init spec_factories (plain_args\<lparr>a_time_embedding_type := ''bogus''\<rparr>) = Inl e)"
  using embedding_kind_at_construction [of sde_args spec_factories "''bogus''"]
        embedding_kind_at_construction
          [of "plain_args\<lparr>a_time_embedding_type := ''bogus''\<rparr>" spec_factories]
  by (simp add: sde_args_def plain_args_def default_args_def)

text \<open>The claim C5 as it was stated fails: with the flag \<^verbatim>\<open>sde\<close> at its default, the kind
  \<open>''bogus''\<close> is accepted and the constructor returns the same instance as for any other
  kind.\<close>

theorem sde_accepts_unknown_embedding_kind:
  "init spec_factories (sde_args\<lparr>a_time_embedding_type := ''bogus''\<rparr>) = Inr sde_model"
  by (simp add: init_def init_overrides_def sde_args_def default_args_def sde_model_def
        register_to_config_def new_Conv2d_def build_time_steps_def TimestepEmbedding_init_def
        spec_factories_def plain_down_block_types_def skip_down_block_types_def
        up_block_types_def new_GroupNorm_def init_legacy_def init_for_sde_def
        scale_channels_def sde_down_blocks_def str_lower_def Combine_init_def
        seq_simps Let_def)


subsection \<open>The shape-level run of the down pass\<close>

lemma fmap_iff: "fmap b h w x \<longleftrightarrow> (\<exists>c. x = [b, c, h, w])"
  by (auto simp: fmap_def split: list.splits)

lemma shape_down_resnets_fmap:
  "fmap b h w x \<Longrightarrow>
   \<exists>y. shape_down_resnets n out x = Inr (y, replicate n [b, out, h, w]) \<and> fmap b h w y"
proof (induction n arbitrary: x)
  case 0
  then show ?case by simp
next
  case (Suc n)
  from Suc.prems obtain c where x: "x = [b, c, h, w]" by (auto simp: fmap_iff)
  have "fmap b h w [b, out, h, w]" by (simp add: fmap_iff)
  from Suc.IH [OF this] obtain y where
    "shape_down_resnets n out [b, out, h, w] = Inr (y, replicate n [b, out, h, w])" "fmap b h w y"
    by blast
  then show ?case by (simp add: x shape_resnet_def and_then_simps)
qed

lemma shape_down_resnets_length:
  "shape_down_resnets n out x = Inr (y, outs) \<Longrightarrow> length outs = n"
  by (induction n arbitrary: x y outs) (auto simp: and_then_Inr)

lemma shape_down_block_length:
  "shape_down_block d x emb sk = Inr (y, rs, sk') \<Longrightarrow>
   length rs = d_num_layers d + (if add_downsample d then 1 else 0)"
  by (auto simp: shape_down_block_def and_then_Inr require_Inr Let_def
           dest: shape_down_resnets_length split: if_splits)

lemma shape_down_block_final:
  assumes "\<not> add_downsample d" and "fmap b h w x"
  shows "\<exists>y. shape_down_block d x emb sk =
               Inr (y, replicate (d_num_layers d) [b, d_out_channels d, h, w],
                    if d_block_type d \<in> set skip_down_block_types then sk else None)
             \<and> fmap b h w y"
proof -
  from shape_down_resnets_fmap [OF assms(2)] obtain y where
    "shape_down_resnets (d_num_layers d) (d_out_channels d) x =
       Inr (y, replicate (d_num_layers d) [b, d_out_channels d, h, w])" "fmap b h w y"
    by blast
  then show ?thesis using assms(1) by (simp add: shape_down_block_def and_then_simps)
qed

lemma shape_downsample_fmap:
  "fmap b (2 * h) (2 * w) x \<Longrightarrow> \<exists>y. shape_downsample x = Inr y \<and> fmap b h w y"
  by (auto simp: fmap_iff shape_downsample_def)

lemma shape_down_block_plain:
  assumes "add_downsample d" and "d_block_type d \<notin> set skip_down_block_types"
    and "fmap b (2 * h) (2 * w) x"
  shows "\<exists>y. shape_down_block d x emb sk =
               Inr (y, replicate (d_num_layers d) [b, d_out_channels d, 2 * h, 2 * w] @ [y], None)
             \<and> fmap b h w y"
proof -
  from shape_down_resnets_fmap [OF assms(3)] obtain x1 where x1:
    "shape_down_resnets (d_num_layers d) (d_out_channels d) x =
       Inr (x1, replicate (d_num_layers d) [b, d_out_channels d, 2 * h, 2 * w])"
    "fmap b (2 * h) (2 * w) x1"
    by blast
  from shape_downsample_fmap [OF x1(2)] obtain y where "shape_downsample x1 = Inr y" "fmap b h w y"
    by blast
  then show ?thesis using assms(1,2) x1(1) by (simp add: shape_down_block_def and_then_simps)
qed

lemma shape_down_block_skip:
  assumes "add_downsample d" and "d_block_type d \<in> set skip_down_block_types"
    and "fmap b (2 * h) (2 * w) x" and "fmap b (2 * h) (2 * w) p"
  shows "\<exists>y p'. shape_down_block d x emb (Some p) =
               Inr (y, replicate (d_num_layers d) [b, d_out_channels d, 2 * h, 2 * w] @ [y],
                    Some p')
             \<and> fmap b h w y \<and> fmap b h w p'"
proof -
  from shape_down_resnets_fmap [OF assms(3)] obtain x1 where x1:
    "shape_down_resnets (d_num_layers d) (d_out_channels d) x =
       Inr (x1, replicate (d_num_layers d) [b, d_out_channels d, 2 * h, 2 * w])"
    "fmap b (2 * h) (2 * w) x1"
    by blast
  from shape_downsample_fmap [OF x1(2)] obtain y where y: "shape_downsample x1 = Inr y" "fmap b h w y"
    by blast
  from shape_downsample_fmap [OF assms(4)] obtain p' where p: "shape_downsample p = Inr p'"
    "fmap b h w p'" by blast
  have "shape_merge p' y = Inr y" using y(2) p(2) by (auto simp: fmap_iff shape_merge_def)
  then show ?thesis using assms(1,2) x1(1) y p
    by (simp add: shape_down_block_def and_then_simps require_simps)
qed


lemma groups_ok_length: "groups_ok b h w n k buf \<Longrightarrow> length buf = k * n"
proof (induction k arbitrary: h w buf)
  case 0
  then show ?case by simp
next
  case (Suc k)
  from Suc.prems have "n \<le> length buf"
    and "groups_ok b (2 * h) (2 * w) n k (take (length buf - n) buf)" by simp_all
  from Suc.IH [OF this(2)] this(1) show ?case by simp
qed

lemma groups_ok_prepend:
  assumes "groups_ok b h w n k G" and "length grp = n"
    and "list_all (fmap b (h * 2 ^ k) (w * 2 ^ k)) grp"
  shows "groups_ok b h w n (Suc k) (grp @ G)"
  using assms
proof (induction k arbitrary: h w G)
  case 0
  then show ?case by simp
next
  case (Suc k)
  from Suc.prems(1) have len: "n \<le> length G"
    and last: "list_all (fmap b h w) (drop (length G - n) G)"
    and rest: "groups_ok b (2 * h) (2 * w) n k (take (length G - n) G)" by simp_all
  have "list_all (fmap b (2 * h * 2 ^ k) (2 * w * 2 ^ k)) grp"
    using Suc.prems(3) by (simp add: mult.assoc mult.left_commute)
  from Suc.IH [OF rest Suc.prems(2) this]
  have "groups_ok b (2 * h) (2 * w) n (Suc k) (grp @ take (length G - n) G)" .
  moreover have "take (length (grp @ G) - n) (grp @ G) = grp @ take (length G - n) G"
    using len Suc.prems(2) by simp
  moreover have "drop (length (grp @ G) - n) (grp @ G) = drop (length G - n) G"
    using len Suc.prems(2) by simp
  ultimately show ?case using len last by (simp del: groups_ok.simps(2) add: groups_ok.simps(2) [of b h w n "Suc k"])
qed


lemma has_skip_path_shape:
  "has_skip_path shape_backend d = Inr (d_block_type d \<in> set skip_down_block_types)"
  by (simp add: shape_backend_def)

lemma down_block_forward_shape: "down_block_forward shape_backend = shape_down_block"
  by (simp add: shape_backend_def)

lemma down_pass_shape:
  assumes "down_ok R ds"
    and "fmap b (h * 2 ^ (length ds - 1)) (w * 2 ^ (length ds - 1)) x"
    and "fmap b (h * 2 ^ (length ds - 1)) (w * 2 ^ (length ds - 1)) e"
    and "(\<forall>d\<in>set ds. d_block_type d \<notin> set skip_down_block_types)
         \<or> ((\<forall>d\<in>set ds. d_block_type d \<in> set skip_down_block_types)
            \<and> fmap b (h * 2 ^ (length ds - 1)) (w * 2 ^ (length ds - 1)) sk)"
  shows "\<exists>y G. down_pass shape_backend ds x emb sk (pre @ [e]) = Inr (y, pre @ G)
               \<and> fmap b h w y \<and> groups_ok b h w (R + 1) (length ds) G"
  using assms
proof (induction R ds arbitrary: x e sk pre rule: down_ok.induct)
  case (1 R)
  then show ?case by simp
next
  case (2 R d)
  then have d: "d_num_layers d = R" "\<not> add_downsample d" and x: "fmap b h w x"
    and e: "fmap b h w e" by simp_all
  let ?sko = "if d_block_type d \<in> set skip_down_block_types then Some sk else None"
  from shape_down_block_final [OF d(2) x, of emb ?sko] obtain y where y:
    "shape_down_block d x emb ?sko =
        Inr (y, replicate (d_num_layers d) [b, d_out_channels d, h, w], ?sko)" "fmap b h w y"
    by auto
  let ?G = "e # replicate R [b, d_out_channels d, h, w]"
  have "down_pass shape_backend [d] x emb sk (pre @ [e]) = Inr (y, pre @ ?G)"
  proof (cases "d_block_type d \<in> set skip_down_block_types")
    case True
    with y(1) d(1) show ?thesis
      by (simp add: has_skip_path_shape down_block_forward_shape and_then_simps)
  next
    case False
    with y(1) d(1) show ?thesis
      by (simp add: has_skip_path_shape down_block_forward_shape and_then_simps)
  qed
  moreover have "groups_ok b h w (R + 1) (length [d]) ?G"
    using e by (simp add: fmap_iff list_all_iff)
  ultimately show ?case using y(2) by blast
next
  case (3 R d d' ds)
  let ?ds = "d' # ds"
  let ?k = "length ?ds - 1"
  let ?h = "h * 2 ^ ?k" and ?w = "w * 2 ^ ?k"
  from "3.prems"(1) have d: "d_num_layers d = R" "add_downsample d" and ok: "down_ok R ?ds"
    by simp_all
  have hh: "h * 2 ^ (length (d # ?ds) - 1) = 2 * ?h" "w * 2 ^ (length (d # ?ds) - 1) = 2 * ?w"
    by simp_all
  from "3.prems"(2,3) have x: "fmap b (2 * ?h) (2 * ?w) x" and e: "fmap b (2 * ?h) (2 * ?w) e"
    unfolding hh by simp_all
  let ?top = "e # replicate R [b, d_out_channels d, 2 * ?h, 2 * ?w]"
  have top: "length ?top = R + 1" "list_all (fmap b (h * 2 ^ length ?ds) (w * 2 ^ length ?ds)) ?top"
    using e by (simp_all add: fmap_iff list_all_iff mult_ac)
  show ?case
  proof (cases "d_block_type d \<in> set skip_down_block_types")
    case False
    with "3.prems"(4) have plain: "\<forall>d\<in>set (d # ?ds). d_block_type d \<notin> set skip_down_block_types"
      by auto
    from shape_down_block_plain [OF d(2) False x] obtain y where y:
      "shape_down_block d x emb None =
         Inr (y, replicate (d_num_layers d) [b, d_out_channels d, 2 * ?h, 2 * ?w] @ [y], None)"
      "fmap b ?h ?w y" by blast
    from plain have fam: "(\<forall>d\<in>set ?ds. d_block_type d \<notin> set skip_down_block_types)
         \<or> ((\<forall>d\<in>set ?ds. d_block_type d \<in> set skip_down_block_types) \<and> fmap b ?h ?w sk)"
      by simp
    from "3.IH" [OF ok y(2) y(2) fam, of "pre @ ?top"] obtain z G where z:
      "down_pass shape_backend ?ds y emb sk ((pre @ ?top) @ [y]) = Inr (z, (pre @ ?top) @ G)"
      "fmap b h w z" "groups_ok b h w (R + 1) (length ?ds) G" by blast
    have "down_pass shape_backend (d # ?ds) x emb sk (pre @ [e]) = Inr (z, pre @ (?top @ G))"
      using y(1) d(1) z(1) False
      by (simp add: has_skip_path_shape down_block_forward_shape and_then_simps)
    moreover have "groups_ok b h w (R + 1) (length (d # ?ds)) (?top @ G)"
      using groups_ok_prepend [OF z(3) top] by simp
    ultimately show ?thesis using z(2) by blast
  next
    case True
    with "3.prems"(4) have skip: "\<forall>d\<in>set ?ds. d_block_type d \<in> set skip_down_block_types"
      and sk: "fmap b (2 * ?h) (2 * ?w) sk" unfolding hh by auto
    from shape_down_block_skip [OF d(2) True x sk] obtain y p' where y:
      "shape_down_block d x emb (Some sk) =
         Inr (y, replicate (d_num_layers d) [b, d_out_channels d, 2 * ?h, 2 * ?w] @ [y], Some p')"
      "fmap b ?h ?w y" "fmap b ?h ?w p'" by blast
    from skip y(3) have fam: "(\<forall>d\<in>set ?ds. d_block_type d \<notin> set skip_down_block_types)
         \<or> ((\<forall>d\<in>set ?ds. d_block_type d \<in> set skip_down_block_types) \<and> fmap b ?h ?w p')"
      by simp
    from "3.IH" [OF ok y(2) y(2) fam, of "pre @ ?top"] obtain z G where z:
      "down_pass shape_backend ?ds y emb p' ((pre @ ?top) @ [y]) = Inr (z, (pre @ ?top) @ G)"
      "fmap b h w z" "groups_ok b h w (R + 1) (length ?ds) G" by blast
    have "down_pass shape_backend (d # ?ds) x emb sk (pre @ [e]) = Inr (z, pre @ (?top @ G))"
      using y(1) d(1) z(1) True
      by (simp add: has_skip_path_shape down_block_forward_shape and_then_simps)
    moreover have "groups_ok b h w (R + 1) (length (d # ?ds)) (?top @ G)"
      using groups_ok_prepend [OF z(3) top] by simp
    ultimately show ?thesis using z(2) by blast
  qed
qed


subsection \<open>The shape-level run of the up pass\<close>

lemma shape_up_resnets_fmap:
  assumes "fmap b h w x" and "list_all (fmap b h w) res" and "n \<le> length res"
  shows "\<exists>y. shape_up_resnets n out x res = Inr y \<and> fmap b h w y
             \<and> (0 < n \<longrightarrow> y = [b, out, h, w])"
  using assms
proof (induction n arbitrary: x res)
  case 0
  then show ?case by simp
next
  case (Suc n)
  from Suc.prems(3) have ne: "res \<noteq> []" by auto
  then have res: "res = butlast res @ [last res]" by simp
  from Suc.prems(2) ne have l: "fmap b h w (last res)"
    by (simp add: list_all_iff)
  from Suc.prems(2) have bl: "list_all (fmap b h w) (butlast res)"
    by (auto simp: list_all_iff dest: in_set_butlastD)
  from Suc.prems(1) l obtain c c' where x: "x = [b, c, h, w]" and lr: "last res = [b, c', h, w]"
    by (auto simp: fmap_iff)
  have cat: "shape_cat x (last res) = Inr [b, c + c', h, w]" by (simp add: x lr shape_cat_def)
  have rn: "shape_resnet out [b, c + c', h, w] = Inr [b, out, h, w]" by (simp add: shape_resnet_def)
  have f: "fmap b h w [b, out, h, w]" by (simp add: fmap_iff)
  from Suc.prems(3) have "n \<le> length (butlast res)" by simp
  from Suc.IH [OF f bl this] obtain y where y:
    "shape_up_resnets n out [b, out, h, w] (butlast res) = Inr y" "fmap b h w y"
    "0 < n \<longrightarrow> y = [b, out, h, w]" by blast
  have y': "y = [b, out, h, w]"
  proof (cases n)
    case 0
    with y(1) show ?thesis by simp
  next
    case (Suc m)
    with y(3) show ?thesis by simp
  qed
  show ?case using ne cat rn y(1) y' f by (simp add: and_then_simps)
qed

lemma shape_up_block_fmap:
  assumes "fmap b h w x" and "list_all (fmap b h w) res" and "length res = u_num_layers u"
    and "0 < u_num_layers u"
  shows "shape_up_block u x res emb =
           Inr (if add_upsample u then [b, u_out_channels u, 2 * h, 2 * w]
                else [b, u_out_channels u, h, w])"
proof -
  from shape_up_resnets_fmap [OF assms(1,2), of "u_num_layers u" "u_out_channels u"] assms(3,4)
  have "shape_up_resnets (u_num_layers u) (u_out_channels u) x res = Inr [b, u_out_channels u, h, w]"
    by auto
  then show ?thesis by (simp add: shape_up_block_def and_then_simps shape_upsample_def)
qed

lemma up_pass_shape:
  assumes "up_ok R us" and "groups_ok b h w (R + 1) (length us) G" and "fmap b h w x"
  shows "up_pass shape_backend us x G emb =
           Inr ([b, u_out_channels (last us), h * 2 ^ (length us - 1), w * 2 ^ (length us - 1)], [])"
  using assms
proof (induction R us arbitrary: h w x G rule: up_ok.induct)
  case (1 R)
  then show ?case by simp
next
  case (2 R u)
  then have u: "u_num_layers u = R + 1" "\<not> add_upsample u" by simp_all
  from "2.prems"(2) have len: "R + 1 \<le> length G"
    and grp: "list_all (fmap b h w) (drop (length G - (R + 1)) G)"
    and rest: "take (length G - (R + 1)) G = []" by simp_all
  from rest len have lG: "length G = R + 1" by (cases "length G - (R + 1)") auto
  then have pop: "pop_res_samples (R + 1) G = (G, [])" by (simp add: pop_res_samples_def)
  from grp lG have all: "list_all (fmap b h w) G" by simp
  from shape_up_block_fmap [OF "2.prems"(3) all, of u emb] lG u
  have "shape_up_block u x G emb = Inr [b, u_out_channels u, h, w]" by simp
  then show ?case using pop u(1) by (simp add: shape_backend_def and_then_simps)
next
  case (3 R u u' us)
  let ?us = "u' # us"
  from "3.prems"(1) have u: "u_num_layers u = R + 1" "add_upsample u" and ok: "up_ok R ?us"
    by simp_all
  let ?grp = "drop (length G - (R + 1)) G" and ?rest = "take (length G - (R + 1)) G"
  from "3.prems"(2) have len: "R + 1 \<le> length G"
    and grp: "list_all (fmap b h w) ?grp"
    and rest: "groups_ok b (2 * h) (2 * w) (R + 1) (length ?us) ?rest" by simp_all
  have pop: "pop_res_samples (R + 1) G = (?grp, ?rest)" by (simp add: pop_res_samples_def)
  have lg: "length ?grp = u_num_layers u" using len u(1) by simp
  from shape_up_block_fmap [OF "3.prems"(3) grp lg, of emb] u
  have blk: "shape_up_block u x ?grp emb = Inr [b, u_out_channels u, 2 * h, 2 * w]" by simp
  have f: "fmap b (2 * h) (2 * w) [b, u_out_channels u, 2 * h, 2 * w]" by (simp add: fmap_iff)
  from "3.IH" [OF ok rest f]
  have "up_pass shape_backend ?us [b, u_out_channels u, 2 * h, 2 * w] ?rest emb =
          Inr ([b, u_out_channels (last ?us), 2 * h * 2 ^ (length ?us - 1),
                2 * w * 2 ^ (length ?us - 1)], [])" .
  moreover have "up_pass shape_backend (u # ?us) x G emb =
      up_pass shape_backend ?us [b, u_out_channels u, 2 * h, 2 * w] ?rest emb"
    using pop blk u(1) by (simp add: shape_backend_def and_then_simps)
  ultimately show ?case by (simp add: mult_ac)
qed

subsection \<open>The block lists the constructor builds, and the counts of the skip buffer\<close>

lemma build_down_ok:
  assumes "build_down_blocks F a bc ted i oc tys = Inr ds" and "a_num_res_blocks a = Some R"
    and "tys \<noteq> []" and "i + length tys = length bc"
  shows "down_ok R ds \<and> map d_block_type ds = tys"
  using assms
proof (induction tys arbitrary: i oc ds)
  case Nil
  then show ?case by simp
next
  case (Cons ty tys)
  from Cons.prems(1,2) obtain blk rest where
    ds: "ds = blk # rest" and
    blk: "d_block_type blk = ty" "d_num_layers blk = R"
         "add_downsample blk = (i \<noteq> length bc - 1)" and
    rest: "build_down_blocks F a bc ted (i + 1) (bc ! i) tys = Inr rest"
    by (auto simp: and_then_Inr or_raise_Inr require_Inr Let_def split: if_splits)
  show ?case
  proof (cases tys)
    case Nil
    with rest have "rest = []" by simp
    moreover from Nil Cons.prems(4) have "i = length bc - 1" by simp
    ultimately show ?thesis using ds blk Nil by simp
  next
    case (Cons ty' tys')
    then have ne: "tys \<noteq> []" by simp
    from Cons.prems(4) have n: "(i + 1) + length tys = length bc" by simp
    from Cons.IH [OF rest Cons.prems(2) ne n] have ih: "down_ok R rest" "map d_block_type rest = tys"
      by simp_all
    from ih(2) Cons obtain r rs where r: "rest = r # rs" by (cases rest) auto
    from Cons Cons.prems(4) have "i \<noteq> length bc - 1" by simp
    then show ?thesis using ds blk ih r by simp
  qed
qed

lemma build_up_ok:
  assumes "build_up_blocks F a rbc ted i oc tys = Inr us" and "a_num_res_blocks a = Some R"
    and "tys \<noteq> []" and "i + length tys = length rbc"
  shows "up_ok R us \<and> length us = length tys \<and> u_out_channels (last us) = last rbc"
  using assms
proof (induction tys arbitrary: i oc us)
  case Nil
  then show ?case by simp
next
  case (Cons ty tys)
  from Cons.prems(1,2) obtain blk rest where
    us: "us = blk # rest" and
    blk: "u_num_layers blk = R + 1" "u_out_channels blk = rbc ! i"
         "add_upsample blk = (i \<noteq> length rbc - 1)" and
    rest: "build_up_blocks F a rbc ted (i + 1) (rbc ! i) tys = Inr rest"
    by (auto simp: and_then_Inr or_raise_Inr require_Inr Let_def split: if_splits)
  show ?case
  proof (cases tys)
    case Nil
    with rest have r: "rest = []" by simp
    from Nil Cons.prems(4) have i: "i = length rbc - 1" "rbc \<noteq> []" by auto
    then have "rbc ! i = last rbc" by (simp add: last_conv_nth)
    then show ?thesis using us blk r i Nil by simp
  next
    case (Cons ty' tys')
    then have ne: "tys \<noteq> []" by simp
    from Cons.prems(4) have n: "(i + 1) + length tys = length rbc" by simp
    from Cons.IH [OF rest Cons.prems(2) ne n] have ih: "up_ok R rest" "length rest = length tys"
      "u_out_channels (last rest) = last rbc" by simp_all
    from ih(2) Cons obtain r rs where r: "rest = r # rs" by (cases rest) auto
    from Cons Cons.prems(4) have "i \<noteq> length rbc - 1" by simp
    then show ?thesis using us blk ih r by simp
  qed
qed

lemma down_ok_count:
  "down_ok R ds \<Longrightarrow>
   (\<Sum>d\<leftarrow>ds. d_num_layers d + (if add_downsample d then 1 else 0)) = length ds * R + (length ds - 1)"
  by (induction R ds rule: down_ok.induct) simp_all

lemma down_ok_length: "down_ok R ds \<Longrightarrow> map d_block_type ds = tys \<Longrightarrow> length ds = length tys"
  by auto

lemma up_ok_layers: "up_ok R us \<Longrightarrow> \<forall>u\<in>set us. u_num_layers u = R + 1"
  by (induction R us rule: up_ok.induct) simp_all

lemma down_pass_length:
  assumes "\<And>blk x e sk y rs sk'. down_block_forward B blk x e sk = Inr (y, rs, sk') \<Longrightarrow>
             length rs = d_num_layers blk + (if add_downsample blk then 1 else 0)"
    and "down_pass B blks s emb sk res = Inr (y, buf)"
  shows "length buf =
           length res + (\<Sum>d\<leftarrow>blks. d_num_layers d + (if add_downsample d then 1 else 0))"
  using assms(2)
proof (induction blks arbitrary: s sk res)
  case Nil
  then show ?case by simp
next
  case (Cons blk blks)
  from Cons.prems have "\<exists>s' rs sk' sk'' sk3.
      down_block_forward B blk s emb sk' = Inr (s', rs, sk'') \<and>
      down_pass B blks s' emb sk3 (res @ rs) = Inr (y, buf)"
    by (auto simp: and_then_Inr split: if_splits option.splits) blast+
  then obtain s' rs sk' sk'' sk3 where
    call: "down_block_forward B blk s emb sk' = Inr (s', rs, sk'')" and
    rec: "down_pass B blks s' emb sk3 (res @ rs) = Inr (y, buf)" by blast
  from Cons.IH [OF rec] assms(1) [OF call] show ?case by simp
qed

lemma up_pass_rest_length:
  assumes "\<forall>u\<in>set us. len_resnets B u = n" and "0 < n"
    and "up_pass B us x buf emb = Inr (z, rest)"
  shows "length rest = length buf - n * length us"
  using assms
proof (induction us arbitrary: x buf)
  case Nil
  then show ?case by simp
next
  case (Cons u us)
  from Cons.prems(1) have n: "len_resnets B u = n" and all: "\<forall>u\<in>set us. len_resnets B u = n"
    by simp_all
  from Cons.prems(3) n Cons.prems(2) obtain x' where
    "up_pass B us x' (take (length buf - n) buf) emb = Inr (z, rest)"
    by (auto simp: pop_res_samples_def and_then_Inr)
  from Cons.IH [OF all Cons.prems(2) this] show ?case by simp
qed

subsection \<open>The balance of the skip buffer\<close>

lemma init_graph:
  assumes "init F a = Inr m" and "init_overrides a = Inr lc"
  shows "l_block_channels lc \<noteq> []"
    and "build_down_blocks F a (l_block_channels lc) (l_block_channels lc ! 0 * 4) 0
           (l_block_channels lc ! 0) (l_down_blocks lc) = Inr (downsample_blocks m)"
    and "build_up_blocks F a (rev (l_block_channels lc)) (l_block_channels lc ! 0 * 4) 0
           (rev (l_block_channels lc) ! 0) (a_up_blocks a) = Inr (upsample_blocks m)"
    and "conv_norm_out m = \<lparr>gn_num_channels = l_block_channels lc ! 0, gn_num_groups = 32\<rparr>"
    and "config m = l_config lc"
  using assms
  by (elim init_Inr_cases;
      auto dest!: init_legacy_frame simp: new_GroupNorm_def split: if_splits)+

lemma skip_buffer_counts:
  assumes "init F a = Inr m" and "init_overrides a = Inr lc"
    and "length (l_block_channels lc) = L" and "length (l_down_blocks lc) = L"
    and "length (a_up_blocks a) = L" and "a_num_res_blocks a = Some R"
  shows "0 < L" and "down_ok R (downsample_blocks m)" and "length (downsample_blocks m) = L"
    and "up_ok R (upsample_blocks m)" and "length (upsample_blocks m) = L"
    and "u_out_channels (last (upsample_blocks m)) = l_block_channels lc ! 0"
    and "map d_block_type (downsample_blocks m) = l_down_blocks lc"
proof -
  note g = init_graph [OF assms(1,2)]
  from g(1) assms(3) show L: "0 < L" by auto
  from L assms(4) have ne: "l_down_blocks lc \<noteq> []" by auto
  from assms(3,4) have n: "0 + length (l_down_blocks lc) = length (l_block_channels lc)" by simp
  from build_down_ok [OF g(2) assms(6) ne n]
  show d: "down_ok R (downsample_blocks m)"
    and t: "map d_block_type (downsample_blocks m) = l_down_blocks lc" by simp_all
  from t assms(4) show "length (downsample_blocks m) = L" by (metis length_map)
  from L assms(5) have ne': "a_up_blocks a \<noteq> []" by auto
  from assms(3,5) have n': "0 + length (a_up_blocks a) = length (rev (l_block_channels lc))"
    by simp
  from build_up_ok [OF g(3) assms(6) ne' n']
  have u: "up_ok R (upsample_blocks m)" "length (upsample_blocks m) = length (a_up_blocks a)"
    "u_out_channels (last (upsample_blocks m)) = last (rev (l_block_channels lc))" by simp_all
  from u(1) show "up_ok R (upsample_blocks m)" .
  from u(2) assms(5) show "length (upsample_blocks m) = L" by simp
  from u(3) g(1) show "u_out_channels (last (upsample_blocks m)) = l_block_channels lc ! 0"
    by (simp add: last_rev hd_conv_nth)
qed

lemma forward_body_rest:
  assumes "forward_body B m sample timestep = Inr (out, rest)"
  obtains emb s0 y buf x z g where
    "conditioning B m sample timestep = Inr emb"
    "conv2d (torch_ops B) (conv_in m) sample = Inr s0"
    "down_pass B (downsample_blocks m) s0 emb sample [s0] = Inr (y, buf)"
    "mid_stage B m y emb = Inr x"
    "up_pass B (upsample_blocks m) x buf emb = Inr (z, rest)"
    "apply_group_norm (torch_ops B) (conv_norm_out m) z = Inr g"
    "\<exists>v. conv2d (torch_ops B) (conv_out m) (apply_silu (torch_ops B) g) = Inr v
         \<and> out = DictValue [(''sample'', v)]"
  using assms
  by (auto simp: forward_body_def and_then_Inr Let_def split: prod.splits)

text \<open>
  C2. For every configuration the constructor accepts in which the channel widths, the down
  block tags and the up block tags have the same length \<open>L\<close>, with \<open>R\<close> residual blocks per
  level: whenever the down pass returns, the skip buffer holds \<open>1 + L * R + (L - 1)\<close>
  entries (the output of the input convolution, one per residual step, one per resample
  step of the \<open>L - 1\<close> levels that are not the last); there are \<open>L\<close> up blocks, each taking
  \<open>R + 1\<close> entries, which is the same number in total; and whenever the up pass, and so
  \<^verbatim>\<open>forward\<close>, returns, the buffer is empty. The outputs a down block records and the number
  of residual blocks of an up block are those of sections 4.3 and 4.5 of the spec.
\<close>

theorem skip_buffer_balance:
  assumes "init F a = Inr m" and "init_overrides a = Inr lc"
    and "length (l_block_channels lc) = L" and "length (l_down_blocks lc) = L"
    and "length (a_up_blocks a) = L" and "a_num_res_blocks a = Some R"
  shows "(\<forall>s emb sk y buf.
            down_pass shape_backend (downsample_blocks m) s emb sk [s] = Inr (y, buf) \<longrightarrow>
            length buf = 1 + L * R + (L - 1))
       \<and> length (upsample_blocks m) = L
       \<and> (\<forall>u\<in>set (upsample_blocks m). len_resnets shape_backend u = R + 1)
       \<and> L * (R + 1) = 1 + L * R + (L - 1)
       \<and> (\<forall>x buf emb z rest.
            length buf = 1 + L * R + (L - 1) \<and>
            up_pass shape_backend (upsample_blocks m) x buf emb = Inr (z, rest) \<longrightarrow> rest = [])
       \<and> (\<forall>sample timestep out rest.
            forward_body shape_backend m sample timestep = Inr (out, rest) \<longrightarrow> rest = [])"
proof -
  note c = skip_buffer_counts [OF assms]
  have down: "length buf = 1 + L * R + (L - 1)"
    if "down_pass shape_backend (downsample_blocks m) s emb sk [s] = Inr (y, buf)"
    for s emb sk y buf
  proof -
    have "length buf = length [s] +
        (\<Sum>d\<leftarrow>downsample_blocks m. d_num_layers d + (if add_downsample d then 1 else 0))"
      by (rule down_pass_length [OF _ that])
         (simp add: down_block_forward_shape shape_down_block_length)
    then show ?thesis using down_ok_count [OF c(2)] c(3) by simp
  qed
  have layers: "\<forall>u\<in>set (upsample_blocks m). len_resnets shape_backend u = R + 1"
    using up_ok_layers [OF c(4)] by (simp add: shape_backend_def)
  have arith: "L * (R + 1) = 1 + L * R + (L - 1)" using c(1) by (simp add: algebra_simps)
  have up: "rest = []"
    if "length buf = 1 + L * R + (L - 1)"
      "up_pass shape_backend (upsample_blocks m) x buf emb = Inr (z, rest)"
    for x buf emb z and rest :: "shape list"
  proof -
    from up_pass_rest_length [OF layers _ that(2)]
    have "length rest = length buf - (R + 1) * L" using c(5) by simp
    with that(1) arith show ?thesis by (simp add: mult.commute)
  qed
  have body: "rest = []"
    if "forward_body shape_backend m sample timestep = Inr (out, rest)"
    for sample timestep out and rest :: "shape list"
    using that
  proof (elim forward_body_rest)
    fix emb s0 y buf x z
    assume "down_pass shape_backend (downsample_blocks m) s0 emb sample [s0] = Inr (y, buf)"
      and "up_pass shape_backend (upsample_blocks m) x buf emb = Inr (z, rest)"
    then show ?thesis using down up by blast
  qed
  from down c(5) layers arith up body show ?thesis by blast
qed


lemma init_overrides_plain_args:
  "init_overrides plain_args =
     Inr \<lparr>l_block_channels = [64, 128], l_in_channels = Some 3, l_out_channels = Some 5,
          l_conv_resample = Some True, l_time_embedding_type = ''positional'',
          l_down_blocks = [''UNetResDownBlock2D'', ''UNetResAttnDownBlock2D''],
          l_config = register_to_config plain_args\<rparr>"
  by (simp add: init_overrides_def plain_args_def default_args_def)

lemma plain_model_up_pass:
  "up_pass shape_backend (upsample_blocks plain_model) [1, 128, 16, 16] plain_down_buffer
     [1, 256] = Inr ([1, 64, 32, 32], [])"
  by code_simp

lemma plain_model_forward_body:
  "forward_body shape_backend plain_model [1, 3, 32, 32] (ScalarArg (PyInt 0)) =
     Inr (DictValue [(''sample'', [1, 5, 32, 32])], [])"
  by code_simp

theorem skip_buffer_balance_witness:
  "init spec_factories plain_args = Inr plain_model
   \<and> init_overrides plain_args =
       Inr \<lparr>l_block_channels = [64, 128], l_in_channels = Some 3, l_out_channels = Some 5,
            l_conv_resample = Some True, l_time_embedding_type = ''positional'',
            l_down_blocks = [''UNetResDownBlock2D'', ''UNetResAttnDownBlock2D''],
            l_config = register_to_config plain_args\<rparr>
   \<and> length (a_up_blocks plain_args) = 2 \<and> a_num_res_blocks plain_args = Some 2
   \<and> down_pass shape_backend (downsample_blocks plain_model) [1, 64, 32, 32] [1, 256]
        [1, 3, 32, 32] [[1, 64, 32, 32]] = Inr ([1, 128, 16, 16], plain_down_buffer)
   \<and> length plain_down_buffer = 1 + 2 * 2 + (2 - 1)
   \<and> length (upsample_blocks plain_model) = 2
   \<and> list_all (\<lambda>u. len_resnets shape_backend u = 2 + 1) (upsample_blocks plain_model)
   \<and> up_pass shape_backend (upsample_blocks plain_model) [1, 128, 16, 16] plain_down_buffer
        [1, 256] = Inr ([1, 64, 32, 32], [])
   \<and> forward_body shape_backend plain_model [1, 3, 32, 32] (ScalarArg (PyInt 0)) =
        Inr (DictValue [(''sample'', [1, 5, 32, 32])], [])"
proof -
  have up: "length (a_up_blocks plain_args) = 2" and r: "a_num_res_blocks plain_args = Some 2"
    by (simp_all add: plain_args_def default_args_def)
  from skip_buffer_balance [OF init_plain_args init_overrides_plain_args _ _ up r]
  have bal: "(\<forall>s emb sk y buf.
            down_pass shape_backend (downsample_blocks plain_model) s emb sk [s] = Inr (y, buf) \<longrightarrow>
            length buf = 1 + 2 * 2 + (2 - 1))"
    and n: "length (upsample_blocks plain_model) = 2"
    and l: "\<forall>u\<in>set (upsample_blocks plain_model). len_resnets shape_backend u = 2 + 1"
    by simp_all
  from bal plain_model_down_pass have "length plain_down_buffer = 1 + 2 * 2 + (2 - 1)" by blast
  with n l up r init_plain_args init_overrides_plain_args plain_model_down_pass
    plain_model_up_pass plain_model_forward_body
  show ?thesis by (simp add: list_all_iff)
qed

end
